theory Spec2Isabelle
  imports Complex_Main "HOL-Library.Word"
begin

section \<open>Values, errors and the RPC collaborator\<close>

text \<open>
  A Go \<open>error\<close> is modelled by the text its \<open>Error()\<close> method returns.
  \<open>fmt.Errorf("ctx: %w", err)\<close> therefore becomes \<open>wrap ''ctx: '' err\<close>.
\<close>

datatype error = Err string

fun msg :: "error \<Rightarrow> string" where
  "msg (Err s) = s"

definition wrap :: "string \<Rightarrow> error \<Rightarrow> error" where
  "wrap ctx e = Err (ctx @ msg e)"

text \<open>
  What \<open>encoding/json\<close> produces when it decodes into \<open>interface{}\<close>:
  \<open>nil\<close>, \<open>bool\<close>, \<open>float64\<close>, \<open>string\<close>, \<open>[]interface{}\<close> and
  \<open>map[string]interface{}\<close>. A decoded number is a finite \<open>float64\<close>; it is
  modelled by the real number it denotes.
\<close>

datatype json =
    JNull
  | JBool bool
  | JNum real
  | JStr string
  | JArr "json list"
  | JObj "(string \<times> json) list"

text \<open>The checked type assertions \<open>v.([]interface{})\<close>, \<open>v.(string)\<close>,
  \<open>v.(bool)\<close> and \<open>v.(float64)\<close>: \<open>None\<close> is \<open>ok == false\<close>.\<close>

fun as_array :: "json \<Rightarrow> json list option" where
  "as_array (JArr xs) = Some xs"
| "as_array JNull = None"
| "as_array (JBool b) = None"
| "as_array (JNum r) = None"
| "as_array (JStr s) = None"
| "as_array (JObj kvs) = None"

fun as_string :: "json \<Rightarrow> string option" where
  "as_string (JStr s) = Some s"
| "as_string JNull = None"
| "as_string (JBool b) = None"
| "as_string (JNum r) = None"
| "as_string (JArr xs) = None"
| "as_string (JObj kvs) = None"

fun as_bool :: "json \<Rightarrow> bool option" where
  "as_bool (JBool b) = Some b"
| "as_bool JNull = None"
| "as_bool (JNum r) = None"
| "as_bool (JStr s) = None"
| "as_bool (JArr xs) = None"
| "as_bool (JObj kvs) = None"

fun as_float64 :: "json \<Rightarrow> real option" where
  "as_float64 (JNum r) = Some r"
| "as_float64 JNull = None"
| "as_float64 (JBool b) = None"
| "as_float64 (JStr s) = None"
| "as_float64 (JArr xs) = None"
| "as_float64 (JObj kvs) = None"

text \<open>
  The functions of Go's standard library and runtime that the client calls and whose
  results are not fixed by the client's own source are taken as parameters:
  \<^item> \<open>json_unmarshal\<close> is \<open>json.Unmarshal(raw, &data)\<close> with
    \<open>data []interface{}\<close> (the JSON text \<open>null\<close> leaves \<open>data\<close> empty);
  \<^item> \<open>sprint_v\<close> is \<open>fmt.Sprintf("%v", data)\<close> for such a slice;
  \<^item> \<open>f2i_out_of_range\<close> is the implementation-dependent result of converting
    a \<open>float64\<close> outside the 64-bit range to an integer.
\<close>

record golib =
  json_unmarshal :: "string \<Rightarrow> error + json list"
  sprint_v :: "json list \<Rightarrow> string"
  f2i_out_of_range :: "real \<Rightarrow> int"

text \<open>Identifiers of the remote procedures (package \<open>rpc\<close>) and the protobuf
  enumerations (package \<open>pb\<close>) used by the client.\<close>

datatype rpc_id =
    RPCListRecentlyViewedProjects
  | RPCRefreshSource
  | RPCCheckSourceFreshness
  | RPCAddSources
  | RPCCreateNote
  | RPCCreateAudioOverview
  | RPCGetAudioOverview
  | RPCShareAudio

datatype SourceType = SOURCE_TYPE_YOUTUBE_VIDEO

text \<open>\<open>SOURCE_STATUS_UNSPECIFIED\<close> stands for the zero value of the enumeration,
  which a freshly allocated result holds.\<close>

datatype SourceStatus =
    SOURCE_STATUS_UNSPECIFIED
  | SOURCE_STATUS_ENABLED
  | SOURCE_STATUS_DISABLED
  | SOURCE_STATUS_ERROR

text \<open>The positional argument tree of a call, \<open>[]interface{}\<close> built by the client:
  \<open>nil\<close>, strings, integers, nested slices and enumeration constants.\<close>

datatype arg =
    ANull
  | AStr string
  | AInt int
  | AArr "arg list"
  | ASourceType SourceType

record call =
  ID :: rpc_id
  Args :: "arg list"
  NotebookID :: string

text \<open>The value returned by \<open>rpc.Client.DoWithFullResponse\<close>.\<close>

record response =
  Data :: string
  RawArray :: "json list"

text \<open>
  The client's only state is its \<open>rpc.Client\<close>. The remote side is a pair of
  oracles that answer a call given the calls issued before it; \<open>issued\<close> records
  every call handed to the transport, in order. Debug traces written to standard
  output are left out of the model.
\<close>

record client =
  rpc_do :: "call list \<Rightarrow> call \<Rightarrow> error + string"
  rpc_do_full :: "call list \<Rightarrow> call \<Rightarrow> error + response"
  issued :: "call list"

definition Do :: "call \<Rightarrow> client \<Rightarrow> (error + string) \<times> client" where
  "Do cl c = (rpc_do c (issued c) cl, c\<lparr>issued := issued c @ [cl]\<rparr>)"

definition DoWithFullResponse :: "call \<Rightarrow> client \<Rightarrow> (error + response) \<times> client" where
  "DoWithFullResponse cl c = (rpc_do_full c (issued c) cl, c\<lparr>issued := issued c @ [cl]\<rparr>)"

section \<open>Audio overviews\<close>

record AudioOverviewResult =
  ProjectID :: string
  AudioID :: string
  Title :: string
  AudioData :: string
  IsReady :: bool

text \<open>\<open>&AudioOverviewResult{ProjectID: projectID}\<close>: every other field is zero.\<close>

definition new_AudioOverviewResult :: "string \<Rightarrow> AudioOverviewResult" where
  "new_AudioOverviewResult projectID =
     \<lparr>ProjectID = projectID, AudioID = [], Title = [], AudioData = [], IsReady = False\<rparr>"

text \<open>The four field extractions shared by both audio calls; they run only once
  \<open>len(audioData) >= 4\<close> is known, so indices 1 to 3 are in range.\<close>

definition fill_audio :: "json list \<Rightarrow> AudioOverviewResult \<Rightarrow> AudioOverviewResult" where
  "fill_audio audioData result =
     (let result = (case as_string (audioData ! 1) of
                      Some audioBase64 \<Rightarrow> result\<lparr>AudioData := audioBase64\<rparr>
                    | None \<Rightarrow> result);
          result = (case as_string (audioData ! 2) of
                      Some i \<Rightarrow> result\<lparr>AudioID := i\<rparr>
                    | None \<Rightarrow> result);
          result = (case as_string (audioData ! 3) of
                      Some t \<Rightarrow> result\<lparr>Title := t\<rparr>
                    | None \<Rightarrow> result)
      in if length audioData > 5
         then (case as_bool (audioData ! 5) of
                 Some ready \<Rightarrow> result\<lparr>IsReady := ready\<rparr>
               | None \<Rightarrow> result)
         else result)"

definition CreateAudioOverview ::
  "golib \<Rightarrow> string \<Rightarrow> string \<Rightarrow> client \<Rightarrow> (error + AudioOverviewResult) \<times> client" where
  "CreateAudioOverview L projectID instructions c =
     (if projectID = [] then (Inl (Err ''project ID required''), c)
      else if instructions = [] then (Inl (Err ''instructions required''), c)
      else
        (case Do \<lparr>ID = RPCCreateAudioOverview,
                  Args = [AStr projectID, AInt 0, AArr [AStr instructions]],
                  NotebookID = projectID\<rparr> c of
           (Inl err, c') \<Rightarrow> (Inl (wrap ''create audio overview: '' err), c')
         | (Inr resp, c') \<Rightarrow>
             (case json_unmarshal L resp of
                Inl err \<Rightarrow> (Inl (wrap ''parse response JSON: '' err), c')
              | Inr data \<Rightarrow>
                  (let result = new_AudioOverviewResult projectID in
                   if length data = 0 then (Inr result, c')
                   else if length data > 2 then
                     (case as_array (data ! 2) of
                        None \<Rightarrow> (Inr result, c')
                      | Some audioData \<Rightarrow>
                          if length audioData < 4 then (Inr result, c')
                          else (Inr (fill_audio audioData result), c'))
                   else (Inr result, c')))))"

definition GetAudioOverview ::
  "golib \<Rightarrow> string \<Rightarrow> client \<Rightarrow> (error + AudioOverviewResult) \<times> client" where
  "GetAudioOverview L projectID c =
     (case Do \<lparr>ID = RPCGetAudioOverview,
               Args = [AStr projectID, AInt 1],
               NotebookID = projectID\<rparr> c of
        (Inl err, c') \<Rightarrow> (Inl (wrap ''get audio overview: '' err), c')
      | (Inr resp, c') \<Rightarrow>
          (case json_unmarshal L resp of
             Inl err \<Rightarrow> (Inl (wrap ''parse response JSON: '' err), c')
           | Inr data \<Rightarrow>
               (let result = new_AudioOverviewResult projectID in
                if length data = 0 then (Inr result, c')
                else if length data > 2 then
                  (case as_array (data ! 2) of
                     None \<Rightarrow> (Inl (Err ''invalid audio data format''), c')
                   | Some audioData \<Rightarrow>
                       if length audioData < 4
                       then (Inl (Err ''invalid audio data format''), c')
                       else (Inr (fill_audio audioData result), c'))
                else (Inr result, c'))))"

section \<open>Sharing\<close>

text \<open>\<open>type ShareOption int\<close> with \<open>SharePrivate = 0\<close> and \<open>SharePublic = 1\<close>.\<close>

type_synonym ShareOption = int

definition SharePrivate :: ShareOption where
  "SharePrivate = 0"

definition SharePublic :: ShareOption where
  "SharePublic = 1"

record ShareAudioResult =
  ShareURL :: string
  ShareID :: string
  IsPublic :: bool

definition ShareAudio ::
  "golib \<Rightarrow> string \<Rightarrow> ShareOption \<Rightarrow> client \<Rightarrow> (error + ShareAudioResult) \<times> client" where
  "ShareAudio L projectID shareOption c =
     (case Do \<lparr>ID = RPCShareAudio,
               Args = [AArr [AInt shareOption], AStr projectID],
               NotebookID = projectID\<rparr> c of
        (Inl err, c') \<Rightarrow> (Inl (wrap ''share audio: '' err), c')
      | (Inr resp, c') \<Rightarrow>
          (case json_unmarshal L resp of
             Inl err \<Rightarrow> (Inl (wrap ''parse response: '' err), c')
           | Inr data \<Rightarrow>
               (let result = \<lparr>ShareURL = [], ShareID = [],
                              IsPublic = (shareOption = SharePublic)\<rparr> in
                if length data > 0 then
                  (case as_array (data ! 0) of
                     None \<Rightarrow> (Inr result, c')
                   | Some shareData \<Rightarrow>
                       if length shareData > 0 then
                         (let result = (case as_string (shareData ! 0) of
                                          Some shareURL \<Rightarrow> result\<lparr>ShareURL := shareURL\<rparr>
                                        | None \<Rightarrow> result)
                          in if length shareData > 1
                             then (case as_string (shareData ! 1) of
                                     Some shareID \<Rightarrow> (Inr (result\<lparr>ShareID := shareID\<rparr>), c')
                                   | None \<Rightarrow> (Inr result, c'))
                             else (Inr result, c'))
                       else (Inr result, c'))
                else (Inr result, c'))))"

section \<open>Decimal formatting\<close>

text \<open>\<open>%d\<close> of \<open>fmt\<close> for an integer: the decimal digits, most significant first,
  after a minus sign when the value is negative.\<close>

fun index_of :: "'a list \<Rightarrow> 'a \<Rightarrow> nat option" where
  "index_of [] x = None"
| "index_of (y # ys) x = (if x = y then Some 0 else map_option Suc (index_of ys x))"

definition digit_chars :: string where
  "digit_chars = ''0123456789''"

definition digit_char :: "nat \<Rightarrow> char" where
  "digit_char d = digit_chars ! d"

definition digit_val :: "char \<Rightarrow> nat option" where
  "digit_val ch = index_of digit_chars ch"

fun dec_digits :: "nat \<Rightarrow> string" where
  "dec_digits n =
     (if n < 10 then [digit_char n] else dec_digits (n div 10) @ [digit_char (n mod 10)])"

declare dec_digits.simps [simp del]

definition fmt_d :: "int \<Rightarrow> string" where
  "fmt_d i = (if i < 0 then CHR ''-'' # dec_digits (nat (- i)) else dec_digits (nat i))"

text \<open>Reading a decimal numeral back: digits only, at least one.\<close>

fun parse_digits :: "nat \<Rightarrow> string \<Rightarrow> nat option" where
  "parse_digits acc [] = Some acc"
| "parse_digits acc (ch # cs) =
     (case digit_val ch of
        None \<Rightarrow> None
      | Some d \<Rightarrow> parse_digits (10 * acc + d) cs)"

definition parse_nat :: "string \<Rightarrow> nat option" where
  "parse_nat s = (if s = [] then None else parse_digits 0 s)"

definition parse_d :: "string \<Rightarrow> int option" where
  "parse_d s =
     (case s of
        [] \<Rightarrow> None
      | ch # cs \<Rightarrow>
          if ch = CHR ''-'' then map_option (\<lambda>n. - int n) (parse_nat cs)
          else map_option int (parse_nat s))"

section \<open>Source freshness\<close>

record SourceFreshnessResult =
  SourceID :: string
  Status :: SourceStatus
  Message :: string

definition needs_sync_message :: string where
  "needs_sync_message =
     ''Google Drive source needs synchronization ('' @
     [CHR 0xE3, CHR 0x82, CHR 0xAF, CHR 0xE3, CHR 0x83, CHR 0xAA, CHR 0xE3, CHR 0x83, CHR 0x83,
      CHR 0xE3, CHR 0x82, CHR 0xAF, CHR 0xE3, CHR 0x81, CHR 0x97, CHR 0xE3, CHR 0x81, CHR 0xA6] @
     '' Google '' @
     [CHR 0xE3, CHR 0x83, CHR 0x89, CHR 0xE3, CHR 0x83, CHR 0xA9, CHR 0xE3, CHR 0x82, CHR 0xA4,
      CHR 0xE3, CHR 0x83, CHR 0x96, CHR 0xE3, CHR 0x81, CHR 0xA8, CHR 0xE5, CHR 0x90, CHR 0x8C,
      CHR 0xE6, CHR 0x9C, CHR 0x9F] @
     '')''"

text \<open>The function mutates \<open>*result\<close> and returns the same pointer with a \<open>nil\<close>
  error on every path; the model returns the updated record under \<open>Inr\<close>.\<close>

definition interpretFreshnessStatusCode ::
  "int \<Rightarrow> string \<Rightarrow> SourceFreshnessResult \<Rightarrow> error + SourceFreshnessResult" where
  "interpretFreshnessStatusCode statusCode sourceID result =
     (if statusCode = 3 then
        (if sourceID = ''ac38c61f-ce14-4d8d-9def-35651c3bed87'' \<or>
            sourceID = ''7e57807c-9331-4750-be23-bec3157277cc''
         then Inr (result\<lparr>Status := SOURCE_STATUS_DISABLED, Message := needs_sync_message\<rparr>)
         else Inr (result\<lparr>Status := SOURCE_STATUS_ENABLED,
                           Message := ''Google Drive source is properly synchronized''\<rparr>))
      else Inr (result\<lparr>Status := SOURCE_STATUS_ERROR,
                        Message := ''Unknown freshness status code: '' @ fmt_d statusCode\<rparr>))"

text \<open>The innermost test of the search: \<open>sourceData\<close> is a non-empty array whose
  first element is a non-empty array whose first element is the string \<open>sourceID\<close>.\<close>

definition source_matches :: "string \<Rightarrow> json \<Rightarrow> bool" where
  "source_matches sourceID sourceData =
     (case as_array sourceData of
        None \<Rightarrow> False
      | Some sourceArr \<Rightarrow>
          length sourceArr > 0 \<and>
          (case as_array (sourceArr ! 0) of
             None \<Rightarrow> False
           | Some sourceIDArr \<Rightarrow>
               length sourceIDArr > 0 \<and>
               (case as_string (sourceIDArr ! 0) of
                  None \<Rightarrow> False
                | Some sourceIDStr \<Rightarrow> sourceIDStr = sourceID)))"

text \<open>The loop over the projects: the first project (an array of more than two
  elements) one of whose sources matches gives its ID, the string at index 2 or the
  empty string.\<close>

fun search_projects :: "string \<Rightarrow> json list \<Rightarrow> string option" where
  "search_projects sourceID [] = None"
| "search_projects sourceID (projectData # rest) =
     (case as_array projectData of
        None \<Rightarrow> search_projects sourceID rest
      | Some project \<Rightarrow>
          if length project > 2 then
            (let projectID = (case as_string (project ! 2) of Some i \<Rightarrow> i | None \<Rightarrow> []) in
             case as_array (project ! 1) of
               None \<Rightarrow> search_projects sourceID rest
             | Some sourcesData \<Rightarrow>
                 if list_ex (source_matches sourceID) sourcesData then Some projectID
                 else search_projects sourceID rest)
          else search_projects sourceID rest)"

definition findProjectIDForSource ::
  "golib \<Rightarrow> string \<Rightarrow> client \<Rightarrow> (error + string) \<times> client" where
  "findProjectIDForSource L sourceID c =
     (case DoWithFullResponse \<lparr>ID = RPCListRecentlyViewedProjects,
                               Args = [ANull, AInt 1],
                               NotebookID = []\<rparr> c of
        (Inl err, c') \<Rightarrow> (Inl (wrap ''failed to get projects: '' err), c')
      | (Inr resp, c') \<Rightarrow>
          (case json_unmarshal L (Data resp) of
             Inl err \<Rightarrow> (Inl (wrap ''failed to parse projects response: '' err), c')
           | Inr responseData \<Rightarrow>
               (let found =
                      (if length responseData > 0 then
                         (case as_array (responseData ! 0) of
                            None \<Rightarrow> None
                          | Some projects \<Rightarrow> search_projects sourceID projects)
                       else None)
                in case found of
                     Some projectID \<Rightarrow> (Inr projectID, c')
                   | None \<Rightarrow>
                       (Inl (Err (''source '' @ sourceID @ '' not found in any project'')), c'))))"

text \<open>Conversion of a \<open>float64\<close> to a 64-bit integer: the fraction is discarded;
  a value outside the range has an implementation-dependent result.\<close>

definition trunc :: "real \<Rightarrow> int" where
  "trunc r = (if r < 0 then - \<lfloor>- r\<rfloor> else \<lfloor>r\<rfloor>)"

definition int64_of_float64 :: "golib \<Rightarrow> real \<Rightarrow> int" where
  "int64_of_float64 L r =
     (let t = trunc r
      in if - (2 ^ 63) \<le> t \<and> t < 2 ^ 63 then t else f2i_out_of_range L r)"

text \<open>The status code sits at \<open>resp.RawArray[5][0]\<close> when those positions exist and
  hold an array and a number.\<close>

definition freshness_status_code :: "golib \<Rightarrow> json list \<Rightarrow> int option" where
  "freshness_status_code L rawArray =
     (if length rawArray > 5 then
        (case as_array (rawArray ! 5) of
           None \<Rightarrow> None
         | Some statusArray \<Rightarrow>
             if length statusArray > 0 then
               (case as_float64 (statusArray ! 0) of
                  None \<Rightarrow> None
                | Some statusCode \<Rightarrow> Some (int64_of_float64 L statusCode))
             else None)
      else None)"

text \<open>\<open>checkSourceSyncStatus\<close> as \<open>internal/api/client.go\<close> has it: look the project
  up, trigger a refresh whose outcome is ignored, ask for the freshness status. Every
  path returns the result with a \<open>nil\<close> error.\<close>

definition checkSourceSyncStatus ::
  "golib \<Rightarrow> string \<Rightarrow> SourceFreshnessResult \<Rightarrow> client \<Rightarrow>
   (error + SourceFreshnessResult) \<times> client" where
  "checkSourceSyncStatus L sourceID result c =
     (case findProjectIDForSource L sourceID c of
        (Inl err, c1) \<Rightarrow>
          (Inr (result\<lparr>Status := SOURCE_STATUS_ERROR,
                        Message := ''Could not find project for source: '' @ msg err\<rparr>), c1)
      | (Inr projectID, c1) \<Rightarrow>
          (case DoWithFullResponse \<lparr>ID = RPCRefreshSource,
                                    Args = [AStr sourceID],
                                    NotebookID = projectID\<rparr> c1 of
             (refreshResult, c2) \<Rightarrow>
               (case DoWithFullResponse \<lparr>ID = RPCCheckSourceFreshness,
                                         Args = [AStr sourceID],
                                         NotebookID = projectID\<rparr> c2 of
                  (Inl err, c3) \<Rightarrow>
                    (Inr (result\<lparr>Status := SOURCE_STATUS_ERROR,
                                  Message := ''Failed to check source freshness: '' @ msg err\<rparr>),
                     c3)
                | (Inr resp, c3) \<Rightarrow>
                    (case freshness_status_code L (RawArray resp) of
                       Some statusCode \<Rightarrow>
                         (interpretFreshnessStatusCode statusCode sourceID result, c3)
                     | None \<Rightarrow>
                         (Inr (result\<lparr>Status := SOURCE_STATUS_ERROR,
                                       Message := ''Could not parse freshness status from API response''\<rparr>),
                          c3)))))"

definition CheckSourceFreshness ::
  "golib \<Rightarrow> string \<Rightarrow> client \<Rightarrow> (error + SourceFreshnessResult) \<times> client" where
  "CheckSourceFreshness L sourceID c =
     checkSourceSyncStatus L sourceID
       \<lparr>SourceID = sourceID, Status = SOURCE_STATUS_UNSPECIFIED, Message = []\<rparr> c"

section \<open>Sources and notes\<close>

text \<open>One step of the three response formats: \<open>d\<close> is non-empty and its first
  element is a non-empty array.\<close>

definition descend :: "json list \<Rightarrow> json list option" where
  "descend d =
     (if length d > 0 then
        (case as_array (d ! 0) of
           None \<Rightarrow> None
         | Some d0 \<Rightarrow> if length d0 > 0 then Some d0 else None)
      else None)"

definition format1 :: "json list \<Rightarrow> string option" where
  "format1 d =
     Option.bind (descend d) (\<lambda>d0.
     Option.bind (descend d0) (\<lambda>d1.
     Option.bind (descend d1) (\<lambda>d2. as_string (d2 ! 0))))"

definition format2 :: "json list \<Rightarrow> string option" where
  "format2 d =
     Option.bind (descend d) (\<lambda>d0.
     Option.bind (descend d0) (\<lambda>d1. as_string (d1 ! 0)))"

definition format3 :: "json list \<Rightarrow> string option" where
  "format3 d = Option.bind (descend d) (\<lambda>d0. as_string (d0 ! 0))"

definition extractSourceID :: "golib \<Rightarrow> string \<Rightarrow> error + string" where
  "extractSourceID L resp =
     (if length resp = 0 then Inl (Err ''empty response'')
      else
        (case json_unmarshal L resp of
           Inl err \<Rightarrow> Inl (wrap ''parse response JSON: '' err)
         | Inr data \<Rightarrow>
             (case format1 data of
                Some i \<Rightarrow> Inr i
              | None \<Rightarrow>
                  (case format2 data of
                     Some i \<Rightarrow> Inr i
                   | None \<Rightarrow>
                       (case format3 data of
                          Some i \<Rightarrow> Inr i
                        | None \<Rightarrow>
                            Inl (Err (''could not find source ID in response structure: '' @
                                      sprint_v L data)))))))"

definition AddYouTubeSource ::
  "golib \<Rightarrow> string \<Rightarrow> string \<Rightarrow> client \<Rightarrow> (error + string) \<times> client" where
  "AddYouTubeSource L projectID videoID c =
     (let payload =
            [AArr [AArr [ANull, ANull, AStr videoID, ANull,
                         ASourceType SOURCE_TYPE_YOUTUBE_VIDEO]],
             AStr projectID]
      in case Do \<lparr>ID = RPCAddSources, Args = payload, NotebookID = projectID\<rparr> c of
           (Inl err, c') \<Rightarrow> (Inl (wrap ''add YouTube source: '' err), c')
         | (Inr resp, c') \<Rightarrow>
             if length resp = 0
             then (Inl (Err ''empty response from server (check debug output for request details)''),
                   c')
             else
               (case extractSourceID L resp of
                  Inl err \<Rightarrow> (Inl (wrap ''extract source ID: '' err), c')
                | Inr sourceID \<Rightarrow> (Inr sourceID, c')))"

text \<open>\<open>beprotojson.Unmarshal(resp, &note)\<close> belongs to a package of the repository
  whose source is not at hand; it is the parameter \<open>unmarshal_note\<close>, and the note
  type \<open>pb.Source\<close> is the type variable.\<close>

definition CreateNote ::
  "(string \<Rightarrow> error + 'note) \<Rightarrow> string \<Rightarrow> string \<Rightarrow> string \<Rightarrow> client \<Rightarrow>
   (error + 'note) \<times> client" where
  "CreateNote unmarshal_note projectID title initialContent c =
     (case Do \<lparr>ID = RPCCreateNote,
               Args = [AStr projectID, AStr initialContent, AArr [AInt 1], ANull, AStr title],
               NotebookID = projectID\<rparr> c of
        (Inl err, c') \<Rightarrow> (Inl (wrap ''create note: '' err), c')
      | (Inr resp, c') \<Rightarrow>
          (case unmarshal_note resp of
             Inl err \<Rightarrow> (Inl (wrap ''parse response: '' err), c')
           | Inr note \<Rightarrow> (Inr note, c')))"

section \<open>Audio bytes and base64\<close>

text \<open>
  \<open>base64.StdEncoding\<close> of Go's standard library (RFC 4648, section 4): the
  alphabet \<open>A-Z a-z 0-9 + /\<close>, padding with \<open>=\<close>, not strict. Bytes are 8-bit
  words; a Go string is the list of its bytes, each a \<open>char\<close>.
\<close>

type_synonym byte = "8 word"

definition encodeStd :: string where
  "encodeStd = ''ABCDEFGHIJKLMNOPQRSTUVWXYZabcdefghijklmnopqrstuvwxyz0123456789+/''"

definition padChar :: char where
  "padChar = CHR ''=''"

definition enc_char :: "nat \<Rightarrow> char" where
  "enc_char v = encodeStd ! (v mod 64)"

text \<open>\<open>EncodeToString\<close>: three bytes give \<open>val = b0<<16 | b1<<8 | b2\<close> and the
  four characters for \<open>val>>18\<close>, \<open>val>>12\<close>, \<open>val>>6\<close> and \<open>val\<close>, each masked
  with \<open>0x3F\<close>; one or two trailing bytes give two or three characters and padding.\<close>

fun EncodeToString :: "byte list \<Rightarrow> string" where
  "EncodeToString [] = []"
| "EncodeToString [b0] =
     (let val = unat b0 * 65536
      in [enc_char (val div 262144), enc_char (val div 4096), padChar, padChar])"
| "EncodeToString [b0, b1] =
     (let val = unat b0 * 65536 + unat b1 * 256
      in [enc_char (val div 262144), enc_char (val div 4096), enc_char (val div 64), padChar])"
| "EncodeToString (b0 # b1 # b2 # src) =
     (let val = unat b0 * 65536 + unat b1 * 256 + unat b2
      in [enc_char (val div 262144), enc_char (val div 4096), enc_char (val div 64),
          enc_char val] @ EncodeToString src)"

text \<open>\<open>decodeMap\<close>: the six-bit value of a character of the alphabet, \<open>None\<close>
  (\<open>0xff\<close> in Go) for every other byte.\<close>

definition decodeMap :: "char \<Rightarrow> nat option" where
  "decodeMap ch = index_of encodeStd ch"

definition is_newline :: "char \<Rightarrow> bool" where
  "is_newline ch = (ch = CHR 0x0A \<or> ch = CHR 0x0D)"

definition CorruptInputError :: "nat \<Rightarrow> error" where
  "CorruptInputError n = Err (''illegal base64 data at input byte '' @ dec_digits n)"

text \<open>The bytes of one quantum: \<open>dbuf\<close> holds \<open>dlen\<close> six-bit values (two to
  four), missing ones count as zero, and \<open>dlen - 1\<close> bytes come out.\<close>

definition quantum_bytes :: "nat list \<Rightarrow> byte list" where
  "quantum_bytes dbuf =
     (let d = dbuf @ replicate (4 - length dbuf) 0;
          val = (d ! 0) * 262144 + (d ! 1) * 4096 + (d ! 2) * 64 + (d ! 3)
      in take (length dbuf - 1)
           [of_nat (val div 65536), of_nat (val div 256), of_nat val])"

text \<open>What \<open>decodeQuantum\<close> does once it meets the padding character at offset
  \<open>si - 1\<close> with \<open>j = length dbuf\<close> values read; \<open>src\<close> is the input from offset
  \<open>si\<close> on.\<close>

definition decode_padding :: "nat \<Rightarrow> nat list \<Rightarrow> string \<Rightarrow> byte list \<times> error option" where
  "decode_padding si dbuf src =
     (if length dbuf < 2 then ([], Some (CorruptInputError (si - 1)))
      else
        (let finish = (\<lambda>si' src'.
               (let skipped = takeWhile is_newline src';
                    rest = dropWhile is_newline src'
                in (quantum_bytes dbuf,
                    if rest = [] then None
                    else Some (CorruptInputError (si' + length skipped)))))
         in if length dbuf = 2 then
              (let skipped = takeWhile is_newline src;
                   rest = dropWhile is_newline src
               in case rest of
                    [] \<Rightarrow> ([], Some (CorruptInputError (si + length src)))
                  | ch # rest' \<Rightarrow>
                      if ch \<noteq> padChar
                      then ([], Some (CorruptInputError (si + length skipped - 1)))
                      else finish (si + length skipped + 1) rest')
            else finish si src))"

text \<open>\<open>Decode\<close>: quantum after quantum until the input is used up or an error
  stops it; the bytes decoded before an error are returned with it. \<open>si\<close> is the
  offset of the head of \<open>src\<close>, \<open>dbuf\<close> the values of the current quantum.\<close>

fun decode_loop :: "nat \<Rightarrow> nat list \<Rightarrow> string \<Rightarrow> byte list \<times> error option" where
  "decode_loop si dbuf [] =
     (if dbuf = [] then ([], None) else ([], Some (CorruptInputError (si - length dbuf))))"
| "decode_loop si dbuf (ch # src) =
     (case decodeMap ch of
        Some out \<Rightarrow>
          if length dbuf = 3
          then (case decode_loop (si + 1) [] src of
                  (bs, err) \<Rightarrow> (quantum_bytes (dbuf @ [out]) @ bs, err))
          else decode_loop (si + 1) (dbuf @ [out]) src
      | None \<Rightarrow>
          if is_newline ch then decode_loop (si + 1) dbuf src
          else if ch \<noteq> padChar then ([], Some (CorruptInputError si))
          else decode_padding (si + 1) dbuf src)"

definition DecodeString :: "string \<Rightarrow> byte list \<times> error option" where
  "DecodeString s = decode_loop 0 [] s"

text \<open>\<open>GetAudioBytes\<close> returns Go's pair: the bytes and the error, \<open>None\<close> for
  \<open>nil\<close>. A \<open>nil\<close> slice is the empty list.\<close>

definition GetAudioBytes :: "AudioOverviewResult \<Rightarrow> byte list \<times> error option" where
  "GetAudioBytes r =
     (if AudioData r = [] then ([], Some (Err ''no audio data available''))
      else DecodeString (AudioData r))"

text \<open>
  What RFC 4648, section 4, calls a base64 text, stated without reference to the
  decoder: the length is a multiple of four, every character before the first \<open>=\<close>
  belongs to the alphabet, and from the first \<open>=\<close> on there is nothing but one or two
  \<open>=\<close> that end the text.
\<close>

definition valid_std_base64 :: "string \<Rightarrow> bool" where
  "valid_std_base64 s =
     (let body = takeWhile (\<lambda>ch. ch \<noteq> padChar) s;
          padding = dropWhile (\<lambda>ch. ch \<noteq> padChar) s
      in length s mod 4 = 0 \<and>
         list_all (\<lambda>ch. ch \<in> set encodeStd) body \<and>
         (padding = [] \<or> padding = [padChar] \<or> padding = [padChar, padChar]))"

text \<open>The same condition for the rest of a text of which \<open>j\<close> characters of the
  current group of four have been read.\<close>

definition valid_rest :: "nat \<Rightarrow> string \<Rightarrow> bool" where
  "valid_rest j s =
     (let body = takeWhile (\<lambda>ch. ch \<noteq> padChar) s;
          padding = dropWhile (\<lambda>ch. ch \<noteq> padChar) s
      in (j + length s) mod 4 = 0 \<and>
         list_all (\<lambda>ch. ch \<in> set encodeStd) body \<and>
         (padding = [] \<or> padding = [padChar] \<or> padding = [padChar, padChar]))"

text \<open>A text without its carriage returns and line feeds.\<close>

definition strip_newlines :: "string \<Rightarrow> string" where
  "strip_newlines s = filter (\<lambda>ch. \<not> is_newline ch) s"

section \<open>De-chunking the response stream\<close>

text \<open>
  Modelled from the spec: the error and the frame of the Frame Transport (the
  repository's \<open>batchexecute\<close> package, whose source is not at hand). A frame is the
  length announced by the stream and the payload read for it.
\<close>

datatype transport_error = FramingError

record frame =
  DeclaredLength :: nat
  Payload :: string

definition LF :: char where
  "LF = CHR 0x0A"

definition is_blank :: "char \<Rightarrow> bool" where
  "is_blank ch = (ch = CHR '' '' \<or> ch = CHR 0x09 \<or> ch = CHR 0x0D)"

definition blank_line :: "string \<Rightarrow> bool" where
  "blank_line l = list_all is_blank l"

text \<open>
  Modelled from the spec: the de-chunker of the Frame Transport (package
  \<open>batchexecute\<close>, not at hand). After the preamble the stream is a sequence of
  chunks, each a decimal length on a line of its own followed by exactly that many
  bytes of payload. The algorithm repeatedly reads a line, ignores it when blank,
  parses it as the length, reads exactly that many bytes as one frame's payload, and
  stops when the stream is exhausted. A length that cannot be parsed and a stream that
  ends inside a chunk (before the end of the length line, or before the announced
  number of bytes) are a \<open>FramingError\<close>.
\<close>

function de_chunk :: "string \<Rightarrow> transport_error + frame list" where
  "de_chunk s =
     (if s = [] then Inr []
      else
        (let line = takeWhile (\<lambda>ch. ch \<noteq> LF) s;
             after = dropWhile (\<lambda>ch. ch \<noteq> LF) s
         in if after = [] then (if blank_line line then Inr [] else Inl FramingError)
            else
              (let rest = tl after
               in if blank_line line then de_chunk rest
                  else
                    (case parse_nat line of
                       None \<Rightarrow> Inl FramingError
                     | Some n \<Rightarrow>
                         if length rest < n then Inl FramingError
                         else
                           (case de_chunk (drop n rest) of
                              Inl e \<Rightarrow> Inl e
                            | Inr frames \<Rightarrow>
                                Inr (\<lparr>DeclaredLength = n, Payload = take n rest\<rparr> # frames))))))"
  by pat_completeness auto
termination
proof (relation "measure length")
  show "wf (measure length)" by simp
next
  fix s :: string and line after rest
  assume a: "after = dropWhile (\<lambda>ch. ch \<noteq> LF) s" and ne: "after \<noteq> []"
    and r: "rest = tl after"
  have "length after \<le> length s"
    unfolding a by (rule length_dropWhile_le)
  moreover have "length rest < length after"
    using ne r by (cases after) simp_all
  ultimately show "(rest, s) \<in> measure length"
    by simp
next
  fix s :: string and line after rest and n :: nat
  assume a: "after = dropWhile (\<lambda>ch. ch \<noteq> LF) s" and ne: "after \<noteq> []"
    and r: "rest = tl after"
  have "length after \<le> length s"
    unfolding a by (rule length_dropWhile_le)
  moreover have "length rest < length after"
    using ne r by (cases after) simp_all
  ultimately show "(drop n rest, s) \<in> measure length"
    by simp
qed

declare de_chunk.simps [simp del]

text \<open>A stream assembled from payloads as \<open><len>\n<payload>\<close> blocks.\<close>

definition chunk :: "string \<Rightarrow> string" where
  "chunk p = dec_digits (length p) @ LF # p"

definition assemble :: "string list \<Rightarrow> string" where
  "assemble ps = concat (map chunk ps)"

definition frame_of :: "string \<Rightarrow> frame" where
  "frame_of p = \<lparr>DeclaredLength = length p, Payload = p\<rparr>"

section \<open>Concrete collaborators used to exercise the theorems\<close>

text \<open>A library whose JSON decoder rejects every input, and one whose decoder knows
  the texts of a table.\<close>

definition lib_reject :: golib where
  "lib_reject = \<lparr>json_unmarshal = (\<lambda>s. Inl (Err ''unexpected end of JSON input'')),
                  sprint_v = (\<lambda>d. []),
                  f2i_out_of_range = (\<lambda>r. - 9223372036854775808)\<rparr>"

definition lib_table :: "(string \<times> json list) list \<Rightarrow> golib" where
  "lib_table tbl =
     \<lparr>json_unmarshal = (\<lambda>s. case map_of tbl s of
                                 Some d \<Rightarrow> Inr d
                               | None \<Rightarrow> Inl (Err ''invalid character'')),
      sprint_v = (\<lambda>d. ''[...]''),
      f2i_out_of_range = (\<lambda>r. - 9223372036854775808)\<rparr>"

text \<open>A client whose transport refuses every call, one that answers every call with
  the same text, and one that does so except for the freshness call, which times out.\<close>

definition offline :: client where
  "offline = \<lparr>rpc_do = (\<lambda>h cl. Inl (Err ''connection refused'')),
               rpc_do_full = (\<lambda>h cl. Inl (Err ''connection refused'')),
               issued = []\<rparr>"

definition serving :: "string \<Rightarrow> client" where
  "serving raw = \<lparr>rpc_do = (\<lambda>h cl. Inr raw),
                   rpc_do_full = (\<lambda>h cl. Inr \<lparr>Data = raw, RawArray = []\<rparr>),
                   issued = []\<rparr>"

definition flaky :: "string \<Rightarrow> client" where
  "flaky raw = \<lparr>rpc_do = (\<lambda>h cl. Inr raw),
                 rpc_do_full = (\<lambda>h cl. if ID cl = RPCCheckSourceFreshness
                                         then Inl (Err ''timeout'')
                                         else Inr \<lparr>Data = raw, RawArray = []\<rparr>),
                 issued = []\<rparr>"

text \<open>The calls the audio and sharing methods build, and three payloads.\<close>

definition getAudioCall :: "string \<Rightarrow> call" where
  "getAudioCall projectID =
     \<lparr>ID = RPCGetAudioOverview, Args = [AStr projectID, AInt 1], NotebookID = projectID\<rparr>"

definition createAudioCall :: "string \<Rightarrow> string \<Rightarrow> call" where
  "createAudioCall projectID instructions =
     \<lparr>ID = RPCCreateAudioOverview,
      Args = [AStr projectID, AInt 0, AArr [AStr instructions]],
      NotebookID = projectID\<rparr>"

definition shareAudioCall :: "string \<Rightarrow> ShareOption \<Rightarrow> call" where
  "shareAudioCall projectID shareOption =
     \<lparr>ID = RPCShareAudio,
      Args = [AArr [AInt shareOption], AStr projectID],
      NotebookID = projectID\<rparr>"

definition listProjectsCall :: call where
  "listProjectsCall =
     \<lparr>ID = RPCListRecentlyViewedProjects, Args = [ANull, AInt 1], NotebookID = []\<rparr>"

definition refreshCall :: "string \<Rightarrow> string \<Rightarrow> call" where
  "refreshCall projectID sourceID =
     \<lparr>ID = RPCRefreshSource, Args = [AStr sourceID], NotebookID = projectID\<rparr>"

definition freshnessCall :: "string \<Rightarrow> string \<Rightarrow> call" where
  "freshnessCall projectID sourceID =
     \<lparr>ID = RPCCheckSourceFreshness, Args = [AStr sourceID], NotebookID = projectID\<rparr>"

text \<open>\<open>[null,null,[3,"QUJD","id","title"]]\<close>: an audio sub-array of four elements.\<close>

definition payload_four :: "json list" where
  "payload_four = [JNull, JNull, JArr [JNum 3, JStr ''QUJD'', JStr ''id'', JStr ''title'']]"

text \<open>\<open>[null,null,[3,42,"id","title"]]\<close>: a number where the audio text belongs.\<close>

definition payload_number :: "json list" where
  "payload_number = [JNull, JNull, JArr [JNum 3, JNum 42, JStr ''id'', JStr ''title'']]"

text \<open>\<open>[null,null,[3]]\<close>: an audio sub-array of one element.\<close>

definition payload_short :: "json list" where
  "payload_short = [JNull, JNull, JArr [JNum 3]]"

text \<open>A project listing with one project \<open>proj1\<close> holding one source \<open>s1\<close>.\<close>

definition payload_projects :: "json list" where
  "payload_projects =
     [JArr [JArr [JStr ''title'', JArr [JArr [JArr [JStr ''s1'']]], JStr ''proj1'']]]"

text \<open>The shape named by the eighth property: the element at index 2 is not an array
  of at least four elements.\<close>

definition not_audio_array :: "json \<Rightarrow> bool" where
  "not_audio_array v =
     (case as_array v of None \<Rightarrow> True | Some audioData \<Rightarrow> length audioData < 4)"

section \<open>Auxiliary facts\<close>

subsection \<open>Positions in a list without repetitions\<close>

lemma index_of_nth:
  "distinct xs \<Longrightarrow> i < length xs \<Longrightarrow> index_of xs (xs ! i) = Some i"
proof (induction xs arbitrary: i)
  case Nil
  then show ?case by simp
next
  case (Cons y ys)
  show ?case
  proof (cases i)
    case 0
    then show ?thesis by simp
  next
    case (Suc j)
    with Cons.prems have "ys ! j \<noteq> y" "j < length ys" "distinct ys"
      by auto
    with Cons.IH [of j] Suc show ?thesis by simp
  qed
qed

subsection \<open>Decimal numerals\<close>

lemma distinct_digit_chars: "distinct digit_chars"
  by (simp add: digit_chars_def)

lemma digit_val_digit_char: "d < 10 \<Longrightarrow> digit_val (digit_char d) = Some d"
  unfolding digit_val_def digit_char_def
  by (rule index_of_nth [OF distinct_digit_chars]) (simp add: digit_chars_def)

lemma digit_char_in: "d < 10 \<Longrightarrow> digit_char d \<in> set digit_chars"
  unfolding digit_char_def by (rule nth_mem) (simp add: digit_chars_def)

lemma parse_digits_snoc:
  "parse_digits acc (cs @ [ch]) =
     (case parse_digits acc cs of
        None \<Rightarrow> None
      | Some a \<Rightarrow> map_option (\<lambda>d. 10 * a + d) (digit_val ch))"
  by (induction cs arbitrary: acc) (auto split: option.splits)

lemma parse_digits_dec_digits: "parse_digits 0 (dec_digits n) = Some n"
proof (induction n rule: dec_digits.induct)
  case (1 n)
  show ?case
  proof (cases "n < 10")
    case True
    then show ?thesis
      by (subst dec_digits.simps) (simp add: digit_val_digit_char)
  next
    case False
    with 1 have "parse_digits 0 (dec_digits (n div 10)) = Some (n div 10)" by simp
    with False show ?thesis
      by (subst dec_digits.simps) (simp add: parse_digits_snoc digit_val_digit_char)
  qed
qed

lemma dec_digits_nonempty: "dec_digits n \<noteq> []"
  by (subst dec_digits.simps) simp

lemma parse_nat_dec_digits: "parse_nat (dec_digits n) = Some n"
  by (simp add: parse_nat_def dec_digits_nonempty parse_digits_dec_digits)

lemma set_dec_digits: "set (dec_digits n) \<subseteq> set digit_chars"
proof (induction n rule: dec_digits.induct)
  case (1 n)
  show ?case
  proof (cases "n < 10")
    case True
    then show ?thesis
      by (subst dec_digits.simps) (simp add: digit_char_in)
  next
    case False
    with 1 have "set (dec_digits (n div 10)) \<subseteq> set digit_chars" by simp
    with False show ?thesis
      by (subst dec_digits.simps) (simp add: digit_char_in)
  qed
qed

lemma hd_dec_digits_not_minus: "hd (dec_digits n) \<noteq> CHR ''-''"
proof -
  have "hd (dec_digits n) \<in> set digit_chars"
    using set_dec_digits [of n] dec_digits_nonempty [of n] by (meson hd_in_set subsetD)
  then show ?thesis by (auto simp: digit_chars_def)
qed

lemma parse_d_fmt_d: "parse_d (fmt_d i) = Some i"
proof (cases "i < 0")
  case True
  then show ?thesis
    by (simp add: parse_d_def fmt_d_def parse_nat_dec_digits)
next
  case False
  obtain ch cs where d: "dec_digits (nat i) = ch # cs"
    using dec_digits_nonempty [of "nat i"] by (cases "dec_digits (nat i)") auto
  with hd_dec_digits_not_minus [of "nat i"] have "ch \<noteq> CHR ''-''" by simp
  moreover have "parse_nat (ch # cs) = Some (nat i)"
    using parse_nat_dec_digits [of "nat i"] d by simp
  ultimately show ?thesis using False d
    by (simp add: parse_d_def fmt_d_def)
qed

subsection \<open>The audio and sharing methods after a successful call\<close>

lemma GetAudioOverview_decoded:
  assumes "rpc_do c (issued c) (getAudioCall projectID) = Inr resp"
    and "json_unmarshal L resp = Inr data"
  shows "fst (GetAudioOverview L projectID c) =
     (let result = new_AudioOverviewResult projectID in
      if length data = 0 then Inr result
      else if length data > 2 then
        (case as_array (data ! 2) of
           None \<Rightarrow> Inl (Err ''invalid audio data format'')
         | Some audioData \<Rightarrow>
             if length audioData < 4 then Inl (Err ''invalid audio data format'')
             else Inr (fill_audio audioData result))
      else Inr result)"
  using assms
  by (simp add: GetAudioOverview_def getAudioCall_def Do_def Let_def split: option.splits)

lemma CreateAudioOverview_decoded:
  assumes "projectID \<noteq> []" and "instructions \<noteq> []"
    and "rpc_do c (issued c) (createAudioCall projectID instructions) = Inr resp"
    and "json_unmarshal L resp = Inr data"
  shows "fst (CreateAudioOverview L projectID instructions c) =
     (let result = new_AudioOverviewResult projectID in
      if length data = 0 then Inr result
      else if length data > 2 then
        (case as_array (data ! 2) of
           None \<Rightarrow> Inr result
         | Some audioData \<Rightarrow>
             if length audioData < 4 then Inr result
             else Inr (fill_audio audioData result))
      else Inr result)"
  using assms
  by (simp add: CreateAudioOverview_def createAudioCall_def Do_def Let_def split: option.splits)

lemma GetAudioOverview_not_ready:
  assumes "rpc_do c (issued c) (getAudioCall projectID) = Inr resp"
    and "json_unmarshal L resp = Inr data"
    and "length data > 2" and "as_array (data ! 2) = Some audioData"
    and "4 \<le> length audioData" and "length audioData < 6"
  shows "\<exists>r. fst (GetAudioOverview L projectID c) = Inr r \<and> IsReady r = False"
  using assms
  by (simp add: GetAudioOverview_decoded new_AudioOverviewResult_def fill_audio_def Let_def
      split: option.splits)

lemma GetAudioOverview_empty:
  assumes "rpc_do c (issued c) (getAudioCall projectID) = Inr resp"
    and "json_unmarshal L resp = Inr []"
  shows "fst (GetAudioOverview L projectID c) =
     Inr \<lparr>ProjectID = projectID, AudioID = [], Title = [], AudioData = [], IsReady = False\<rparr>"
  using assms by (simp add: GetAudioOverview_decoded new_AudioOverviewResult_def)

lemma GetAudioOverview_mismatch:
  assumes "rpc_do c (issued c) (getAudioCall projectID) = Inr resp"
    and "json_unmarshal L resp = Inr data"
    and "length data > 2" and "as_array (data ! 2) = Some audioData"
    and "4 \<le> length audioData" and "as_string (audioData ! 1) = None"
  shows "\<exists>r. fst (GetAudioOverview L projectID c) = Inr r \<and> AudioData r = []"
  using assms
  by (simp add: GetAudioOverview_decoded new_AudioOverviewResult_def fill_audio_def Let_def
      split: option.splits)

lemma ShareAudio_mismatch:
  assumes "rpc_do c (issued c) (shareAudioCall projectID shareOption) = Inr resp"
    and "json_unmarshal L resp = Inr data"
    and "length data > 0" and "as_array (data ! 0) = Some shareData"
    and "length shareData > 0" and "as_string (shareData ! 0) = None"
  shows "\<exists>r. fst (ShareAudio L projectID shareOption c) = Inr r \<and> ShareURL r = []"
  using assms
  by (simp add: ShareAudio_def shareAudioCall_def Do_def Let_def split: option.splits)

lemma CreateAudioOverview_in_progress:
  assumes "projectID \<noteq> []" and "instructions \<noteq> []"
    and "rpc_do c (issued c) (createAudioCall projectID instructions) = Inr resp"
    and "json_unmarshal L resp = Inr data"
    and "length data > 2" and "not_audio_array (data ! 2)"
  shows "fst (CreateAudioOverview L projectID instructions c) =
           Inr (new_AudioOverviewResult projectID)"
  using assms
  by (auto simp: CreateAudioOverview_decoded not_audio_array_def Let_def split: option.splits)

lemma GetAudioOverview_invalid:
  assumes "rpc_do c (issued c) (getAudioCall projectID) = Inr resp"
    and "json_unmarshal L resp = Inr data"
    and "length data > 2" and "not_audio_array (data ! 2)"
  shows "fst (GetAudioOverview L projectID c) = Inl (Err ''invalid audio data format'')"
  using assms
  by (auto simp: GetAudioOverview_decoded not_audio_array_def Let_def split: option.splits)

subsection \<open>The freshness check when a call fails\<close>

lemma CheckSourceFreshness_lookup_fails:
  assumes "rpc_do_full c (issued c) listProjectsCall = Inl e"
  shows "fst (CheckSourceFreshness L sourceID c) =
           Inr \<lparr>SourceID = sourceID, Status = SOURCE_STATUS_ERROR,
                Message = ''Could not find project for source: failed to get projects: '' @
                          msg e\<rparr>"
  using assms
  by (simp add: CheckSourceFreshness_def checkSourceSyncStatus_def findProjectIDForSource_def
      listProjectsCall_def DoWithFullResponse_def wrap_def)

lemma CheckSourceFreshness_freshness_fails:
  assumes "findProjectIDForSource L sourceID c = (Inr projectID, c1)"
    and "rpc_do_full c1 (issued c1 @ [refreshCall projectID sourceID])
           (freshnessCall projectID sourceID) = Inl e"
  shows "fst (CheckSourceFreshness L sourceID c) =
           Inr \<lparr>SourceID = sourceID, Status = SOURCE_STATUS_ERROR,
                Message = ''Failed to check source freshness: '' @ msg e\<rparr>"
  using assms
  by (simp add: CheckSourceFreshness_def checkSourceSyncStatus_def DoWithFullResponse_def
      refreshCall_def freshnessCall_def split: prod.splits)

lemma findProjectIDForSource_flaky:
  "findProjectIDForSource (lib_table [(''P'', payload_projects)]) ''s1'' (flaky ''P'') =
     (Inr ''proj1'', (flaky ''P'')\<lparr>issued := [listProjectsCall]\<rparr>)"
  by (simp add: findProjectIDForSource_def DoWithFullResponse_def lib_table_def flaky_def
      source_matches_def payload_projects_def listProjectsCall_def)

subsection \<open>Base64: decoding what was encoded\<close>

lemma length_encodeStd: "length encodeStd = 64"
  by (simp add: encodeStd_def)

lemma distinct_encodeStd: "distinct encodeStd"
  by (simp add: encodeStd_def)

lemma decodeMap_enc_char: "decodeMap (enc_char v) = Some (v mod 64)"
  unfolding decodeMap_def enc_char_def
  by (rule index_of_nth [OF distinct_encodeStd]) (simp add: length_encodeStd)

lemma decodeMap_pad: "decodeMap padChar = None"
  by (simp add: decodeMap_def padChar_def encodeStd_def)

lemma not_newline_pad: "\<not> is_newline padChar"
  by (simp add: padChar_def is_newline_def)

lemma sextets_join:
  assumes "v < 16777216"
  shows "(v div 262144 mod 64) * 262144 + (v div 4096 mod 64) * 4096 +
         (v div 64 mod 64) * 64 + v mod 64 = (v::nat)"
proof -
  have a: "v mod 4096 = 64 * (v div 64 mod 64) + v mod 64"
    using mod_mult2_eq [of v 64 64] by simp
  have b: "v mod 262144 = 4096 * (v div 4096 mod 64) + v mod 4096"
    using mod_mult2_eq [of v 4096 64] by simp
  have c: "v mod 16777216 = 262144 * (v div 262144 mod 64) + v mod 262144"
    using mod_mult2_eq [of v 262144 64] by simp
  have "v mod 16777216 = v" using assms by simp
  with a b c show ?thesis by simp
qed

lemma unat_byte_less: "unat (b::byte) < 256"
  using unsigned_less [of b, where 'a = nat] by simp

lemma byte_of_nat: "n = unat (b::byte) + q * 256 \<Longrightarrow> (of_nat n :: byte) = b"
  using of_nat_eq [of n b] by auto

lemma byte_hi:
  "(of_nat ((unat (b0::byte) * 65536 + unat (b1::byte) * 256 + unat (b2::byte)) div 65536)
      :: byte) = b0"
proof -
  have "(unat b0 * 65536 + unat b1 * 256 + unat b2) div 65536 = unat b0"
    using unat_byte_less [of b1] unat_byte_less [of b2] by simp
  then show ?thesis by simp
qed

lemma byte_mid:
  "(of_nat ((unat (b0::byte) * 65536 + unat (b1::byte) * 256 + unat (b2::byte)) div 256)
      :: byte) = b1"
proof -
  have e: "(unat b0 * 65536 + unat b1 * 256 + unat b2) div 256 = unat b1 + unat b0 * 256"
    using unat_byte_less [of b2] by simp
  show ?thesis unfolding e by (rule byte_of_nat [where q = "unat b0"]) (rule refl)
qed

lemma byte_lo:
  "(of_nat (unat (b0::byte) * 65536 + unat (b1::byte) * 256 + unat (b2::byte)) :: byte) = b2"
  by (rule byte_of_nat [where q = "unat b0 * 256 + unat b1"]) simp

lemma val_less:
  "unat (b0::byte) * 65536 + unat (b1::byte) * 256 + unat (b2::byte) < 16777216"
  using unat_byte_less [of b0] unat_byte_less [of b1] unat_byte_less [of b2] by simp

lemma quantum_bytes_join4:
  "v = s0 * 262144 + s1 * 4096 + s2 * 64 + s3 \<Longrightarrow>
   quantum_bytes [s0, s1, s2, s3] = [of_nat (v div 65536), of_nat (v div 256), of_nat v]"
  by (simp add: quantum_bytes_def Let_def)

lemma quantum_bytes_join3:
  "v = s0 * 262144 + s1 * 4096 + s2 * 64 \<Longrightarrow>
   quantum_bytes [s0, s1, s2] = [of_nat (v div 65536), of_nat (v div 256)]"
  by (simp add: quantum_bytes_def Let_def)

lemma quantum_bytes_join2:
  "v = s0 * 262144 + s1 * 4096 \<Longrightarrow>
   quantum_bytes [s0, s1] = [of_nat (v div 65536)]"
  by (simp add: quantum_bytes_def Let_def)

lemma quantum_bytes_4:
  assumes "v < 16777216"
  shows "quantum_bytes [v div 262144 mod 64, v div 4096 mod 64, v div 64 mod 64, v mod 64] =
     [of_nat (v div 65536), of_nat (v div 256), of_nat v]"
  by (rule quantum_bytes_join4) (rule sextets_join [OF assms, symmetric])

lemma quantum_bytes_3:
  assumes "v < 16777216" and "v mod 64 = 0"
  shows "quantum_bytes [v div 262144 mod 64, v div 4096 mod 64, v div 64 mod 64] =
     [of_nat (v div 65536), of_nat (v div 256)]"
proof (rule quantum_bytes_join3)
  show "v = v div 262144 mod 64 * 262144 + v div 4096 mod 64 * 4096 + v div 64 mod 64 * 64"
    using sextets_join [OF assms(1), symmetric] assms(2) by (simp only: add_0_right)
qed

lemma quantum_bytes_2:
  assumes "v < 16777216" and "v mod 4096 = 0"
  shows "quantum_bytes [v div 262144 mod 64, v div 4096 mod 64] = [of_nat (v div 65536)]"
proof (rule quantum_bytes_join2)
  have "64 * (v div 64 mod 64) + v mod 64 = 0"
    using assms(2) mod_mult2_eq [of v 64 64] by simp
  then have z: "v mod 64 = 0" "v div 64 mod 64 = 0"
    by simp_all
  show "v = v div 262144 mod 64 * 262144 + v div 4096 mod 64 * 4096"
    using sextets_join [OF assms(1), symmetric] by (simp only: z mult_zero_left add_0_right)
qed

lemma decode_loop_enc:
  "decode_loop si dbuf (enc_char v # src) =
     (if length dbuf = 3
      then (case decode_loop (si + 1) [] src of
              (bs, err) \<Rightarrow> (quantum_bytes (dbuf @ [v mod 64]) @ bs, err))
      else decode_loop (si + 1) (dbuf @ [v mod 64]) src)"
  by (simp add: decodeMap_enc_char)

lemma decode_loop_pad:
  "decode_loop si dbuf (padChar # src) = decode_padding (si + 1) dbuf src"
  by (simp add: decodeMap_pad not_newline_pad)

lemma decode_EncodeToString:
  "decode_loop si [] (EncodeToString b) = (b, None)"
proof (induction b arbitrary: si rule: EncodeToString.induct)
  case 1
  show ?case by simp
next
  case (2 b0)
  have "quantum_bytes [unat b0 * 65536 div 262144 mod 64, unat b0 * 65536 div 4096 mod 64] =
          [b0]"
    using quantum_bytes_2 [of "unat b0 * 65536"] unat_byte_less [of b0] by simp
  then show ?case
    by (simp add: decode_loop_enc decode_loop_pad decode_padding_def not_newline_pad Let_def
        del: decode_loop.simps(2))
next
  case (3 b0 b1)
  let ?v = "unat b0 * 65536 + unat b1 * 256"
  have "?v < 16777216" using val_less [of b0 b1 0] by simp
  moreover have "?v mod 64 = 0" by presburger
  ultimately have
    "quantum_bytes [?v div 262144 mod 64, ?v div 4096 mod 64, ?v div 64 mod 64] =
       [of_nat (?v div 65536), of_nat (?v div 256)]"
    by (rule quantum_bytes_3)
  moreover have "(of_nat (?v div 65536) :: byte) = b0" "(of_nat (?v div 256) :: byte) = b1"
    using byte_hi [of b0 b1 0] byte_mid [of b0 b1 0] by simp_all
  ultimately show ?case
    by (simp add: decode_loop_enc decode_loop_pad decode_padding_def not_newline_pad Let_def
        del: decode_loop.simps(2))
next
  case (4 b0 b1 b2 src)
  let ?v = "unat b0 * 65536 + unat b1 * 256 + unat b2"
  have "quantum_bytes [?v div 262144 mod 64, ?v div 4096 mod 64, ?v div 64 mod 64, ?v mod 64] =
          [b0, b1, b2]"
    using quantum_bytes_4 [OF val_less [of b0 b1 b2]] byte_hi [of b0 b1 b2]
      byte_mid [of b0 b1 b2] byte_lo [of b0 b1 b2] by simp
  with 4 [OF refl] show ?case
    by (simp add: decode_loop_enc Let_def del: decode_loop.simps(2))
qed

lemma EncodeToString_nonempty: "b \<noteq> [] \<Longrightarrow> EncodeToString b \<noteq> []"
  by (induction b rule: EncodeToString.induct) (simp_all add: Let_def)

subsection \<open>Base64: which texts the decoder accepts\<close>

lemma index_of_None_iff: "index_of xs x = None \<longleftrightarrow> x \<notin> set xs"
  by (induction xs) auto

lemma decodeMap_None_iff: "decodeMap ch = None \<longleftrightarrow> ch \<notin> set encodeStd"
  by (simp add: decodeMap_def index_of_None_iff)

lemma alphabet_plain: "ch \<in> set encodeStd \<Longrightarrow> ch \<noteq> padChar \<and> \<not> is_newline ch"
  by (auto simp: encodeStd_def padChar_def is_newline_def)

lemma valid_rest_Nil: "j < 4 \<Longrightarrow> valid_rest j [] \<longleftrightarrow> j = 0"
  by (simp add: valid_rest_def)

lemma valid_rest_alphabet:
  assumes "ch \<in> set encodeStd" and "j < 4"
  shows "valid_rest j (ch # t) \<longleftrightarrow> valid_rest (if j = 3 then 0 else j + 1) t"
proof -
  have "ch \<noteq> padChar" using assms(1) alphabet_plain by blast
  moreover have "(j + Suc (length t)) mod 4 = 0 \<longleftrightarrow>
                 ((if j = 3 then 0 else j + 1) + length t) mod 4 = 0"
    using assms(2) by (auto simp: mod_Suc) presburger+
  ultimately show ?thesis using assms(1)
    by (simp add: valid_rest_def Let_def)
qed

lemma valid_rest_pad:
  assumes "j < 4"
  shows "valid_rest j (padChar # t) \<longleftrightarrow> (j = 2 \<and> t = [padChar]) \<or> (j = 3 \<and> t = [])"
proof -
  have "j = 0 \<or> j = 1 \<or> j = 2 \<or> j = 3" using assms by arith
  then show ?thesis by (auto simp: valid_rest_def Let_def) presburger+
qed

lemma valid_rest_other:
  assumes "ch \<notin> set encodeStd" and "ch \<noteq> padChar"
  shows "\<not> valid_rest j (ch # t)"
  using assms by (simp add: valid_rest_def Let_def)

lemma strip_newlines_Nil_iff: "strip_newlines s = [] \<longleftrightarrow> dropWhile is_newline s = []"
  by (induction s) (auto simp: strip_newlines_def)

lemma strip_newlines_dropWhile:
  "dropWhile is_newline s = ch # rest \<Longrightarrow> strip_newlines s = ch # strip_newlines rest"
proof (induction s)
  case Nil
  then show ?case by simp
next
  case (Cons a s)
  then show ?case
    by (cases "is_newline a") (auto simp: strip_newlines_def dest: hd_dropWhile)
qed

lemma decode_padding_ok:
  "snd (decode_padding si dbuf src) = None \<longleftrightarrow>
     (length dbuf = 2 \<and> strip_newlines src = [padChar]) \<or>
     (2 < length dbuf \<and> strip_newlines src = [])"
proof (cases "length dbuf < 2")
  case True
  then show ?thesis by (simp add: decode_padding_def)
next
  case False
  show ?thesis
  proof (cases "length dbuf = 2")
    case two: True
    show ?thesis
    proof (cases "dropWhile is_newline src")
      case Nil
      then have "strip_newlines src = []" by (simp add: strip_newlines_Nil_iff)
      with two show ?thesis by (simp add: decode_padding_def Let_def Nil)
    next
      case (Cons ch rest)
      then have s: "strip_newlines src = ch # strip_newlines rest"
        by (rule strip_newlines_dropWhile)
      show ?thesis
        using two s
        by (simp add: decode_padding_def Let_def Cons strip_newlines_Nil_iff)
    qed
  next
    case not_two: False
    with False have "2 < length dbuf" by simp
    then show ?thesis
      by (simp add: decode_padding_def Let_def strip_newlines_Nil_iff)
  qed
qed

lemma decode_loop_ok:
  "length dbuf < 4 \<Longrightarrow>
   snd (decode_loop si dbuf s) = None \<longleftrightarrow> valid_rest (length dbuf) (strip_newlines s)"
proof (induction s arbitrary: si dbuf)
  case Nil
  then show ?case by (simp add: strip_newlines_def valid_rest_Nil)
next
  case (Cons ch s)
  show ?case
  proof (cases "decodeMap ch")
    case (Some out)
    then have mem: "ch \<in> set encodeStd"
      using decodeMap_None_iff [of ch] by auto
    then have plain: "\<not> is_newline ch" using alphabet_plain by blast
    have st: "strip_newlines (ch # s) = ch # strip_newlines s"
      using plain by (simp add: strip_newlines_def)
    show ?thesis
    proof (cases "length dbuf = 3")
      case True
      have "snd (decode_loop si dbuf (ch # s)) = snd (decode_loop (si + 1) [] s)"
        using Some True by (simp split: prod.splits)
      also have "\<dots> = None \<longleftrightarrow> valid_rest 0 (strip_newlines s)"
        using Cons.IH [of "[]" "si + 1"] by simp
      finally show ?thesis
        using True st valid_rest_alphabet [OF mem, of 3 "strip_newlines s"] by simp
    next
      case False
      with Cons.prems have l: "length (dbuf @ [out]) < 4" by simp
      have "snd (decode_loop si dbuf (ch # s)) = snd (decode_loop (si + 1) (dbuf @ [out]) s)"
        using Some False by simp
      also have "\<dots> = None \<longleftrightarrow> valid_rest (length dbuf + 1) (strip_newlines s)"
        using Cons.IH [OF l, of "si + 1"] by simp
      finally show ?thesis
        using False st Cons.prems
          valid_rest_alphabet [OF mem, of "length dbuf" "strip_newlines s"] by simp
    qed
  next
    case None
    then have nmem: "ch \<notin> set encodeStd" by (simp add: decodeMap_None_iff)
    show ?thesis
    proof (cases "is_newline ch")
      case True
      then have "strip_newlines (ch # s) = strip_newlines s"
        by (simp add: strip_newlines_def)
      with None True Cons.IH [OF Cons.prems, of "si + 1"] show ?thesis by simp
    next
      case nl: False
      then have st: "strip_newlines (ch # s) = ch # strip_newlines s"
        by (simp add: strip_newlines_def)
      show ?thesis
      proof (cases "ch = padChar")
        case True
        have "snd (decode_loop si dbuf (ch # s)) = snd (decode_padding (si + 1) dbuf s)"
          using None nl True by simp
        then show ?thesis
          using True st Cons.prems decode_padding_ok [of "si + 1" dbuf s]
            valid_rest_pad [of "length dbuf" "strip_newlines s"]
          by auto
      next
        case False
        with None nl st nmem show ?thesis
          by (simp add: valid_rest_other)
      qed
    qed
  qed
qed

lemma valid_rest_0: "valid_rest 0 s = valid_std_base64 s"
  by (simp add: valid_rest_def valid_std_base64_def)

lemma DecodeString_ok:
  "snd (DecodeString s) = None \<longleftrightarrow> valid_std_base64 (strip_newlines s)"
  using decode_loop_ok [of "[]" 0 s] by (simp add: DecodeString_def valid_rest_0)

lemma enc_char_in: "enc_char v \<in> set encodeStd"
  unfolding enc_char_def by (rule nth_mem) (simp add: length_encodeStd)

lemma set_EncodeToString: "set (EncodeToString b) \<subseteq> insert padChar (set encodeStd)"
  by (induction b rule: EncodeToString.induct) (auto simp: Let_def enc_char_in)

lemma strip_newlines_id: "\<forall>ch\<in>set s. \<not> is_newline ch \<Longrightarrow> strip_newlines s = s"
  by (simp add: strip_newlines_def)

lemma pad_plain: "\<not> is_newline padChar"
  by (simp add: padChar_def is_newline_def)

lemma valid_EncodeToString: "valid_std_base64 (EncodeToString b)"
proof -
  have "\<forall>ch\<in>set (EncodeToString b). \<not> is_newline ch"
    using set_EncodeToString [of b] alphabet_plain pad_plain by blast
  then have "strip_newlines (EncodeToString b) = EncodeToString b"
    by (rule strip_newlines_id)
  moreover have "snd (DecodeString (EncodeToString b)) = None"
    by (simp add: DecodeString_def decode_EncodeToString)
  ultimately show ?thesis
    using DecodeString_ok [of "EncodeToString b"] by simp
qed

subsection \<open>The de-chunker on assembled streams\<close>

lemma digit_not_LF: "ch \<in> set digit_chars \<Longrightarrow> ch \<noteq> LF \<and> \<not> is_blank ch"
  by (auto simp: digit_chars_def LF_def is_blank_def)

lemma digits_no_LF: "set ds \<subseteq> set digit_chars \<Longrightarrow> LF \<notin> set ds"
  using digit_not_LF by blast

lemma digits_not_blank: "set ds \<subseteq> set digit_chars \<Longrightarrow> ds \<noteq> [] \<Longrightarrow> \<not> blank_line ds"
  using digit_not_LF by (cases ds) (auto simp: blank_line_def)

lemma dec_digits_no_LF: "LF \<notin> set (dec_digits n)"
  by (rule digits_no_LF [OF set_dec_digits])

lemma dec_digits_not_blank: "\<not> blank_line (dec_digits n)"
  by (rule digits_not_blank [OF set_dec_digits dec_digits_nonempty])

lemma takeWhile_line: "LF \<notin> set l \<Longrightarrow> takeWhile (\<lambda>ch. ch \<noteq> LF) (l @ LF # t) = l"
  by (induction l) auto

lemma dropWhile_line: "LF \<notin> set l \<Longrightarrow> dropWhile (\<lambda>ch. ch \<noteq> LF) (l @ LF # t) = LF # t"
  by (induction l) auto

lemma takeWhile_noLF: "LF \<notin> set l \<Longrightarrow> takeWhile (\<lambda>ch. ch \<noteq> LF) l = l"
  by (induction l) auto

lemma dropWhile_noLF: "LF \<notin> set l \<Longrightarrow> dropWhile (\<lambda>ch. ch \<noteq> LF) l = []"
  by (induction l) auto

lemma de_chunk_line:
  assumes "LF \<notin> set l" and "\<not> blank_line l"
  shows "de_chunk (l @ LF # t) =
     (case parse_nat l of
        None \<Rightarrow> Inl FramingError
      | Some n \<Rightarrow>
          if length t < n then Inl FramingError
          else (case de_chunk (drop n t) of
                  Inl e \<Rightarrow> Inl e
                | Inr frames \<Rightarrow> Inr (\<lparr>DeclaredLength = n, Payload = take n t\<rparr> # frames)))"
  using assms
  by (subst de_chunk.simps) (simp add: takeWhile_line dropWhile_line Let_def)

lemma de_chunk_unterminated:
  assumes "LF \<notin> set l" and "\<not> blank_line l"
  shows "de_chunk l = Inl FramingError"
proof -
  from assms(2) have "l \<noteq> []" by (auto simp: blank_line_def)
  with assms show ?thesis
    by (subst de_chunk.simps) (simp add: takeWhile_noLF dropWhile_noLF Let_def)
qed

lemma de_chunk_Nil: "de_chunk [] = Inr []"
  by (subst de_chunk.simps) simp

lemma de_chunk_chunk:
  "de_chunk (chunk p @ t) =
     (case de_chunk t of Inl e \<Rightarrow> Inl e | Inr frames \<Rightarrow> Inr (frame_of p # frames))"
  using de_chunk_line [OF dec_digits_no_LF dec_digits_not_blank, of "length p" "p @ t"]
  by (simp add: chunk_def parse_nat_dec_digits frame_of_def split: sum.splits)

lemma de_chunk_assemble_append:
  "de_chunk (assemble ps @ t) =
     (case de_chunk t of Inl e \<Rightarrow> Inl e | Inr frames \<Rightarrow> Inr (map frame_of ps @ frames))"
proof (induction ps)
  case Nil
  show ?case by (simp add: assemble_def split: sum.splits)
next
  case (Cons p ps)
  have "de_chunk (assemble (p # ps) @ t) = de_chunk (chunk p @ (assemble ps @ t))"
    by (simp add: assemble_def)
  also have "\<dots> = (case de_chunk (assemble ps @ t) of
                      Inl e \<Rightarrow> Inl e | Inr frames \<Rightarrow> Inr (frame_of p # frames))"
    by (rule de_chunk_chunk)
  finally show ?case
    by (simp add: Cons.IH split: sum.splits)
qed

lemma de_chunk_assemble: "de_chunk (assemble ps) = Inr (map frame_of ps)"
  using de_chunk_assemble_append [of ps "[]"] by (simp add: de_chunk_Nil)

lemma payload_frames: "concat (map Payload (map frame_of ps)) = concat ps"
  by (induction ps) (simp_all add: frame_of_def)

lemma de_chunk_truncated:
  assumes "0 < k" and "k < length (chunk p)"
  shows "de_chunk (take k (chunk p)) = Inl FramingError"
proof (cases "k \<le> length (dec_digits (length p))")
  case True
  let ?l = "take k (dec_digits (length p))"
  have s: "set ?l \<subseteq> set digit_chars"
    using set_dec_digits [of "length p"] set_take_subset [of k "dec_digits (length p)"] by blast
  have ne: "?l \<noteq> []" using assms(1) dec_digits_nonempty [of "length p"] by simp
  have "de_chunk ?l = Inl FramingError"
    by (rule de_chunk_unterminated [OF digits_no_LF [OF s] digits_not_blank [OF s ne]])
  with True show ?thesis by (simp add: chunk_def)
next
  case False
  let ?d = "dec_digits (length p)"
  let ?j = "k - length ?d - 1"
  from False assms(2) have j: "?j < length p" by (simp add: chunk_def)
  from False have t: "take k (chunk p) = ?d @ LF # take ?j p"
    by (simp add: chunk_def take_Cons')
  show ?thesis
    unfolding t
    using de_chunk_line [OF dec_digits_no_LF dec_digits_not_blank, of "length p" "take ?j p"] j
    by (simp add: parse_nat_dec_digits)
qed

lemma de_chunk_after_assemble_error:
  "de_chunk t = Inl e \<Longrightarrow> de_chunk (assemble ps @ t) = Inl e"
  by (simp add: de_chunk_assemble_append)

lemma de_chunk_bad_length:
  assumes "LF \<notin> set l" and "\<not> blank_line l" and "parse_nat l = None"
  shows "de_chunk (l @ LF # t) = Inl FramingError"
  using assms by (simp add: de_chunk_line)

section \<open>The claims\<close>

text \<open>
  C1, as the code has it. When the transport answers and the payload decodes,
  \<open>GetAudioOverview\<close> returns no error and \<open>IsReady = False\<close> for an audio
  sub-array of at least four and fewer than six elements; for an empty top-level
  array it returns no error and a result whose \<open>ProjectID\<close> is the requested project
  and whose other fields are zero.
\<close>

theorem C1_GetAudioOverview_absent_trailing_fields:
  assumes "rpc_do c (issued c) (getAudioCall projectID) = Inr resp"
    and "json_unmarshal L resp = Inr data"
  shows "(length data > 2 \<and> as_array (data ! 2) = Some audioData \<and>
          4 \<le> length audioData \<and> length audioData < 6 \<longrightarrow>
            (\<exists>r. fst (GetAudioOverview L projectID c) = Inr r \<and> IsReady r = False)) \<and>
         (data = [] \<longrightarrow>
            fst (GetAudioOverview L projectID c) =
              Inr \<lparr>ProjectID = projectID, AudioID = [], Title = [], AudioData = [],
                   IsReady = False\<rparr>)"
  using assms GetAudioOverview_not_ready [of c projectID resp L data audioData]
    GetAudioOverview_empty [of c projectID resp L]
  by blast

theorem C1_GetAudioOverview_absent_trailing_fields_witness:
  "(rpc_do (serving ''A'') (issued (serving ''A'')) (getAudioCall ''p'') = Inr ''A'' \<and>
    json_unmarshal (lib_table [(''A'', payload_four)]) ''A'' = Inr payload_four \<and>
    length payload_four > 2 \<and>
    as_array (payload_four ! 2) = Some [JNum 3, JStr ''QUJD'', JStr ''id'', JStr ''title''] \<and>
    4 \<le> length [JNum 3, JStr ''QUJD'', JStr ''id'', JStr ''title''] \<and>
    length [JNum 3, JStr ''QUJD'', JStr ''id'', JStr ''title''] < 6 \<and>
    (\<exists>r. fst (GetAudioOverview (lib_table [(''A'', payload_four)]) ''p'' (serving ''A'')) = Inr r \<and>
         IsReady r = False)) \<and>
   (rpc_do (serving ''[]'') (issued (serving ''[]'')) (getAudioCall ''p'') = Inr ''[]'' \<and>
    json_unmarshal (lib_table [(''[]'', [])]) ''[]'' = Inr [] \<and>
    fst (GetAudioOverview (lib_table [(''[]'', [])]) ''p'' (serving ''[]'')) =
      Inr \<lparr>ProjectID = ''p'', AudioID = [], Title = [], AudioData = [], IsReady = False\<rparr>)"
proof -
  have a: "rpc_do (serving ''A'') (issued (serving ''A'')) (getAudioCall ''p'') = Inr ''A''"
    by (simp add: serving_def)
  have b: "json_unmarshal (lib_table [(''A'', payload_four)]) ''A'' = Inr payload_four"
    by (simp add: lib_table_def)
  have c: "rpc_do (serving ''[]'') (issued (serving ''[]'')) (getAudioCall ''p'') = Inr ''[]''"
    by (simp add: serving_def)
  have d: "json_unmarshal (lib_table [(''[]'', [])]) ''[]'' = Inr []"
    by (simp add: lib_table_def)
  show ?thesis
    using a b c d
      C1_GetAudioOverview_absent_trailing_fields
        [OF a b, of "[JNum 3, JStr ''QUJD'', JStr ''id'', JStr ''title'']"]
      C1_GetAudioOverview_absent_trailing_fields [OF c d]
    by (simp add: payload_four_def)
qed

text \<open>The claim as written fails twice: for the project \<open>p\<close> and the payload \<open>[]\<close> the
  result carries \<open>ProjectID = p\<close>, which is not the zero value; and an audio sub-array
  shorter than the declared indices, \<open>[null,null,[3]]\<close>, is an error.\<close>

theorem C1_GetAudioOverview_counterexample:
  "fst (GetAudioOverview (lib_table [(''[]'', [])]) ''p'' (serving ''[]'')) \<noteq>
     Inr \<lparr>ProjectID = [], AudioID = [], Title = [], AudioData = [], IsReady = False\<rparr> \<and>
   fst (GetAudioOverview (lib_table [(''S'', payload_short)]) ''p'' (serving ''S'')) =
     Inl (Err ''invalid audio data format'')"
  by (simp add: GetAudioOverview_def Do_def lib_table_def serving_def
      new_AudioOverviewResult_def payload_short_def)

text \<open>
  C2. For every status code other than 3, \<open>interpretFreshnessStatusCode\<close> returns no
  error and a result with the error status whose message is
  \<open>Unknown freshness status code: \<close> followed by the code in decimal, from which the
  code can be read back.
\<close>

theorem C2_unknown_status_code:
  assumes "statusCode \<noteq> 3"
  shows "\<exists>r. interpretFreshnessStatusCode statusCode sourceID result = Inr r \<and>
             SourceID r = SourceID result \<and>
             Status r = SOURCE_STATUS_ERROR \<and>
             Message r = ''Unknown freshness status code: '' @ fmt_d statusCode \<and>
             parse_d (drop 31 (Message r)) = Some statusCode"
  using assms by (simp add: interpretFreshnessStatusCode_def parse_d_fmt_d)

theorem C2_unknown_status_code_witness:
  "(99::int) \<noteq> 3 \<and>
   (\<exists>r. interpretFreshnessStatusCode 99 ''src''
           \<lparr>SourceID = ''src'', Status = SOURCE_STATUS_UNSPECIFIED, Message = []\<rparr> = Inr r \<and>
        SourceID r = ''src'' \<and>
        Status r = SOURCE_STATUS_ERROR \<and>
        Message r = ''Unknown freshness status code: 99'' \<and>
        parse_d (drop 31 (Message r)) = Some 99)"
proof -
  have h: "(99::int) \<noteq> 3" by simp
  have f: "fmt_d 99 = ''99''"
    by (simp add: fmt_d_def dec_digits.simps digit_char_def digit_chars_def)
  show ?thesis
    using h f C2_unknown_status_code [OF h, of "''src''"
        "\<lparr>SourceID = ''src'', Status = SOURCE_STATUS_UNSPECIFIED, Message = []\<rparr>"]
    by simp
qed

text \<open>
  C3, as the code has it. A value of the wrong type where a string is expected is not
  an error: \<open>GetAudioOverview\<close> returns no error and leaves \<open>AudioData\<close> empty when
  index 1 of the audio sub-array is not a string, and \<open>ShareAudio\<close> returns no error
  and leaves \<open>ShareURL\<close> empty when index 0 of the share array is not a string.
\<close>

theorem C3_type_mismatch_leaves_zero_value:
  "(rpc_do c (issued c) (getAudioCall projectID) = Inr resp \<and>
    json_unmarshal L resp = Inr data \<and>
    length data > 2 \<and> as_array (data ! 2) = Some audioData \<and>
    4 \<le> length audioData \<and> as_string (audioData ! 1) = None \<longrightarrow>
      (\<exists>r. fst (GetAudioOverview L projectID c) = Inr r \<and> AudioData r = [])) \<and>
   (rpc_do c' (issued c') (shareAudioCall projectID' shareOption) = Inr resp' \<and>
    json_unmarshal L' resp' = Inr data' \<and>
    length data' > 0 \<and> as_array (data' ! 0) = Some shareData \<and>
    length shareData > 0 \<and> as_string (shareData ! 0) = None \<longrightarrow>
      (\<exists>r. fst (ShareAudio L' projectID' shareOption c') = Inr r \<and> ShareURL r = []))"
  using GetAudioOverview_mismatch [of c projectID resp L data audioData]
    ShareAudio_mismatch [of c' projectID' shareOption resp' L' data' shareData]
  by blast

theorem C3_type_mismatch_leaves_zero_value_witness:
  "(rpc_do (serving ''N'') (issued (serving ''N'')) (getAudioCall ''p'') = Inr ''N'' \<and>
    json_unmarshal (lib_table [(''N'', payload_number)]) ''N'' = Inr payload_number \<and>
    length payload_number > 2 \<and>
    as_array (payload_number ! 2) = Some [JNum 3, JNum 42, JStr ''id'', JStr ''title''] \<and>
    4 \<le> length [JNum 3, JNum 42, JStr ''id'', JStr ''title''] \<and>
    as_string ([JNum 3, JNum 42, JStr ''id'', JStr ''title''] ! 1) = None) \<and>
   (\<exists>r. fst (GetAudioOverview (lib_table [(''N'', payload_number)]) ''p'' (serving ''N'')) = Inr r \<and>
        AudioData r = []) \<and>
   (rpc_do (serving ''U'') (issued (serving ''U'')) (shareAudioCall ''p'' SharePublic) = Inr ''U'' \<and>
    json_unmarshal (lib_table [(''U'', [JArr [JNum 42]])]) ''U'' = Inr [JArr [JNum 42]] \<and>
    length [JArr [JNum 42]] > 0 \<and> as_array ([JArr [JNum 42]] ! 0) = Some [JNum 42] \<and>
    length [JNum 42] > 0 \<and> as_string ([JNum 42] ! 0) = None) \<and>
   (\<exists>r. fst (ShareAudio (lib_table [(''U'', [JArr [JNum 42]])]) ''p'' SharePublic (serving ''U'')) =
          Inr r \<and> ShareURL r = [])"
proof -
  have a: "rpc_do (serving ''N'') (issued (serving ''N'')) (getAudioCall ''p'') = Inr ''N'' \<and>
    json_unmarshal (lib_table [(''N'', payload_number)]) ''N'' = Inr payload_number \<and>
    length payload_number > 2 \<and>
    as_array (payload_number ! 2) = Some [JNum 3, JNum 42, JStr ''id'', JStr ''title''] \<and>
    4 \<le> length [JNum 3, JNum 42, JStr ''id'', JStr ''title''] \<and>
    as_string ([JNum 3, JNum 42, JStr ''id'', JStr ''title''] ! 1) = None"
    by (simp add: serving_def lib_table_def payload_number_def)
  have b: "rpc_do (serving ''U'') (issued (serving ''U'')) (shareAudioCall ''p'' SharePublic) = Inr ''U'' \<and>
    json_unmarshal (lib_table [(''U'', [JArr [JNum 42]])]) ''U'' = Inr [JArr [JNum 42]] \<and>
    length [JArr [JNum 42]] > 0 \<and> as_array ([JArr [JNum 42]] ! 0) = Some [JNum 42] \<and>
    length [JNum 42] > 0 \<and> as_string ([JNum 42] ! 0) = None"
    by (simp add: serving_def lib_table_def)
  show ?thesis
    using a b
      C3_type_mismatch_leaves_zero_value
        [of "serving ''N''" "''p''" "''N''" "lib_table [(''N'', payload_number)]" payload_number
            "[JNum 3, JNum 42, JStr ''id'', JStr ''title'']"
            "serving ''U''" "''p''" SharePublic "''U''" "lib_table [(''U'', [JArr [JNum 42]])]"
            "[JArr [JNum 42]]" "[JNum 42]"]
    by blast
qed

text \<open>The claim as written fails: with the number 42 where the audio text or the share
  URL belongs, both methods return a result and no error.\<close>

theorem C3_type_mismatch_counterexample:
  "fst (GetAudioOverview (lib_table [(''N'', payload_number)]) ''p'' (serving ''N'')) =
     Inr \<lparr>ProjectID = ''p'', AudioID = ''id'', Title = ''title'', AudioData = [],
          IsReady = False\<rparr> \<and>
   fst (ShareAudio (lib_table [(''U'', [JArr [JNum 42]])]) ''p'' SharePublic (serving ''U'')) =
     Inr \<lparr>ShareURL = [], ShareID = [], IsPublic = True\<rparr>"
  by (simp add: GetAudioOverview_def ShareAudio_def Do_def lib_table_def serving_def
      new_AudioOverviewResult_def fill_audio_def payload_number_def)

text \<open>
  C4, as the code has it. A failing call during a freshness check is reported inside
  the result, not as an error: when the project listing fails, and when the project is
  found but the freshness call fails, \<open>CheckSourceFreshness\<close> returns no error and a
  result with the error status whose message ends with the text of the failure.
\<close>

theorem C4_CheckSourceFreshness_reports_failure_in_result:
  "(rpc_do_full c (issued c) listProjectsCall = Inl e \<longrightarrow>
      fst (CheckSourceFreshness L sourceID c) =
        Inr \<lparr>SourceID = sourceID, Status = SOURCE_STATUS_ERROR,
             Message = ''Could not find project for source: failed to get projects: '' @
                       msg e\<rparr>) \<and>
   (findProjectIDForSource L' sourceID' c' = (Inr projectID, c1) \<and>
    rpc_do_full c1 (issued c1 @ [refreshCall projectID sourceID'])
      (freshnessCall projectID sourceID') = Inl e' \<longrightarrow>
      fst (CheckSourceFreshness L' sourceID' c') =
        Inr \<lparr>SourceID = sourceID', Status = SOURCE_STATUS_ERROR,
             Message = ''Failed to check source freshness: '' @ msg e'\<rparr>)"
  using CheckSourceFreshness_lookup_fails [of c e L sourceID]
    CheckSourceFreshness_freshness_fails [of L' sourceID' c' projectID c1 e']
  by blast

theorem C4_CheckSourceFreshness_reports_failure_in_result_witness:
  "rpc_do_full offline (issued offline) listProjectsCall = Inl (Err ''connection refused'') \<and>
   fst (CheckSourceFreshness lib_reject ''s'' offline) =
     Inr \<lparr>SourceID = ''s'', Status = SOURCE_STATUS_ERROR,
          Message = ''Could not find project for source: failed to get projects: connection refused''\<rparr> \<and>
   findProjectIDForSource (lib_table [(''P'', payload_projects)]) ''s1'' (flaky ''P'') =
     (Inr ''proj1'', (flaky ''P'')\<lparr>issued := [listProjectsCall]\<rparr>) \<and>
   rpc_do_full ((flaky ''P'')\<lparr>issued := [listProjectsCall]\<rparr>)
     (issued ((flaky ''P'')\<lparr>issued := [listProjectsCall]\<rparr>) @ [refreshCall ''proj1'' ''s1''])
     (freshnessCall ''proj1'' ''s1'') = Inl (Err ''timeout'') \<and>
   fst (CheckSourceFreshness (lib_table [(''P'', payload_projects)]) ''s1'' (flaky ''P'')) =
     Inr \<lparr>SourceID = ''s1'', Status = SOURCE_STATUS_ERROR,
          Message = ''Failed to check source freshness: timeout''\<rparr>"
proof -
  have a: "rpc_do_full offline (issued offline) listProjectsCall = Inl (Err ''connection refused'')"
    by (simp add: offline_def)
  have b: "rpc_do_full ((flaky ''P'')\<lparr>issued := [listProjectsCall]\<rparr>)
     (issued ((flaky ''P'')\<lparr>issued := [listProjectsCall]\<rparr>) @ [refreshCall ''proj1'' ''s1''])
     (freshnessCall ''proj1'' ''s1'') = Inl (Err ''timeout'')"
    by (simp add: flaky_def freshnessCall_def)
  show ?thesis
    using a b findProjectIDForSource_flaky
      C4_CheckSourceFreshness_reports_failure_in_result
        [of offline "Err ''connection refused''" lib_reject "''s''"
            "lib_table [(''P'', payload_projects)]" "''s1''" "flaky ''P''" "''proj1''"
            "(flaky ''P'')\<lparr>issued := [listProjectsCall]\<rparr>" "Err ''timeout''"]
    by simp
qed

text \<open>The claim as written fails: with a transport that refuses every call the check
  returns a result and no error.\<close>

theorem C4_CheckSourceFreshness_counterexample:
  "fst (CheckSourceFreshness lib_reject ''s'' offline) =
     Inr \<lparr>SourceID = ''s'', Status = SOURCE_STATUS_ERROR,
          Message = ''Could not find project for source: failed to get projects: connection refused''\<rparr>"
  by (simp add: CheckSourceFreshness_def checkSourceSyncStatus_def findProjectIDForSource_def
      DoWithFullResponse_def wrap_def offline_def)

text \<open>
  C5. \<open>CreateNote\<close> hands the transport exactly one call, whose five arguments are the
  project ID, the content, \<open>[1]\<close>, \<open>null\<close> at index 3 and the title at index 4;
  \<open>AddYouTubeSource\<close> hands it exactly one call, whose inner array has \<open>null\<close> at
  positions 0, 1 and 3 and the video ID at position 2.
\<close>

theorem C5_positional_arguments_keep_null_placeholders:
  "(\<exists>cl. issued (snd (CreateNote unmarshal_note projectID title initialContent c)) =
            issued c @ [cl] \<and>
         Args cl = [AStr projectID, AStr initialContent, AArr [AInt 1], ANull, AStr title] \<and>
         length (Args cl) = 5 \<and> Args cl ! 3 = ANull \<and> Args cl ! 4 = AStr title) \<and>
   (\<exists>cl inner. issued (snd (AddYouTubeSource L projectID videoID c)) = issued c @ [cl] \<and>
         Args cl = [AArr [AArr inner], AStr projectID] \<and>
         inner ! 0 = ANull \<and> inner ! 1 = ANull \<and> inner ! 2 = AStr videoID \<and>
         inner ! 3 = ANull)"
  by (auto simp: CreateNote_def AddYouTubeSource_def Do_def Let_def split: sum.splits)

text \<open>
  C7. For every list of payloads the de-chunker turns the stream assembled from them
  into exactly those payloads, one frame each, so that the payloads concatenate to the
  original; a stream cut anywhere inside its last chunk, and a stream whose next length
  line is not a decimal numeral, give \<open>FramingError\<close> and no frames.
\<close>

theorem C7_de_chunk_round_trip_and_framing_errors:
  "de_chunk (assemble ps) = Inr (map frame_of ps) \<and>
   concat (map Payload (map frame_of ps)) = concat ps \<and>
   (0 < k \<and> k < length (chunk p) \<longrightarrow>
      de_chunk (assemble ps @ take k (chunk p)) = Inl FramingError) \<and>
   (LF \<notin> set l \<and> \<not> blank_line l \<and> parse_nat l = None \<longrightarrow>
      de_chunk (assemble ps @ l @ LF # t) = Inl FramingError)"
proof -
  have a: "de_chunk (assemble ps) = Inr (map frame_of ps)"
    by (rule de_chunk_assemble)
  have b: "concat (map Payload (map frame_of ps)) = concat ps"
    by (rule payload_frames)
  have c: "de_chunk (assemble ps @ take k (chunk p)) = Inl FramingError"
    if "0 < k" "k < length (chunk p)"
    by (rule de_chunk_after_assemble_error [OF de_chunk_truncated [OF that]])
  have d: "de_chunk (assemble ps @ l @ LF # t) = Inl FramingError"
    if "LF \<notin> set l" "\<not> blank_line l" "parse_nat l = None"
    by (rule de_chunk_after_assemble_error [OF de_chunk_bad_length [OF that]])
  from a b c d show ?thesis by blast
qed

theorem C7_de_chunk_round_trip_and_framing_errors_witness:
  "de_chunk (assemble [''hello'', ''abc'']) = Inr (map frame_of [''hello'', ''abc'']) \<and>
   concat (map Payload (map frame_of [''hello'', ''abc''])) = concat [''hello'', ''abc''] \<and>
   (0 < (3::nat) \<and> 3 < length (chunk ''wxyz'')) \<and>
   de_chunk (assemble [''hello'', ''abc''] @ take 3 (chunk ''wxyz'')) = Inl FramingError \<and>
   (LF \<notin> set ''1x'' \<and> \<not> blank_line ''1x'' \<and> parse_nat ''1x'' = None) \<and>
   de_chunk (assemble [''hello'', ''abc''] @ ''1x'' @ LF # ''q'') = Inl FramingError"
proof -
  have a: "0 < (3::nat) \<and> 3 < length (chunk ''wxyz'')"
    by (simp add: chunk_def dec_digits.simps)
  have b: "LF \<notin> set ''1x'' \<and> \<not> blank_line ''1x'' \<and> parse_nat ''1x'' = None"
    by (simp add: LF_def blank_line_def is_blank_def parse_nat_def digit_val_def digit_chars_def)
  show ?thesis
    using a b
      C7_de_chunk_round_trip_and_framing_errors
        [of "[''hello'', ''abc'']" 3 "''wxyz''" "''1x''" "''q''"]
    by blast
qed

text \<open>
  C8. For a payload whose element at index 2 is not an array of at least four
  elements, \<open>CreateAudioOverview\<close> returns no error and the result it started from
  (the project ID, every other field zero), while \<open>GetAudioOverview\<close> returns the error
  \<open>invalid audio data format\<close>.
\<close>

theorem C8_create_tolerates_what_get_rejects:
  "(projectID \<noteq> [] \<and> instructions \<noteq> [] \<and>
    rpc_do c (issued c) (createAudioCall projectID instructions) = Inr resp \<and>
    json_unmarshal L resp = Inr data \<and> length data > 2 \<and> not_audio_array (data ! 2) \<longrightarrow>
      fst (CreateAudioOverview L projectID instructions c) =
        Inr \<lparr>ProjectID = projectID, AudioID = [], Title = [], AudioData = [],
             IsReady = False\<rparr>) \<and>
   (rpc_do c (issued c) (getAudioCall projectID) = Inr resp \<and>
    json_unmarshal L resp = Inr data \<and> length data > 2 \<and> not_audio_array (data ! 2) \<longrightarrow>
      fst (GetAudioOverview L projectID c) = Inl (Err ''invalid audio data format''))"
  using CreateAudioOverview_in_progress [of projectID instructions c resp L data]
    GetAudioOverview_invalid [of c projectID resp L data]
  by (auto simp: new_AudioOverviewResult_def)

theorem C8_create_tolerates_what_get_rejects_witness:
  "(''p'' \<noteq> ([]::string) \<and> ''calm tone'' \<noteq> ([]::string) \<and>
    rpc_do (serving ''S'') (issued (serving ''S'')) (createAudioCall ''p'' ''calm tone'') = Inr ''S'' \<and>
    rpc_do (serving ''S'') (issued (serving ''S'')) (getAudioCall ''p'') = Inr ''S'' \<and>
    json_unmarshal (lib_table [(''S'', payload_short)]) ''S'' = Inr payload_short \<and>
    length payload_short > 2 \<and> not_audio_array (payload_short ! 2)) \<and>
   fst (CreateAudioOverview (lib_table [(''S'', payload_short)]) ''p'' ''calm tone'' (serving ''S'')) =
     Inr \<lparr>ProjectID = ''p'', AudioID = [], Title = [], AudioData = [], IsReady = False\<rparr> \<and>
   fst (GetAudioOverview (lib_table [(''S'', payload_short)]) ''p'' (serving ''S'')) =
     Inl (Err ''invalid audio data format'')"
proof -
  have a: "''p'' \<noteq> ([]::string) \<and> ''calm tone'' \<noteq> ([]::string) \<and>
    rpc_do (serving ''S'') (issued (serving ''S'')) (createAudioCall ''p'' ''calm tone'') = Inr ''S'' \<and>
    rpc_do (serving ''S'') (issued (serving ''S'')) (getAudioCall ''p'') = Inr ''S'' \<and>
    json_unmarshal (lib_table [(''S'', payload_short)]) ''S'' = Inr payload_short \<and>
    length payload_short > 2 \<and> not_audio_array (payload_short ! 2)"
    by (simp add: serving_def lib_table_def payload_short_def not_audio_array_def)
  show ?thesis
    using a
      C8_create_tolerates_what_get_rejects
        [of "''p''" "''calm tone''" "serving ''S''" "''S''"
            "lib_table [(''S'', payload_short)]" payload_short]
    by blast
qed

text \<open>
  C9, as the code has it. For every non-empty byte sequence, \<open>GetAudioBytes\<close> of a
  result whose \<open>AudioData\<close> is its standard base64 encoding returns exactly those bytes
  and no error, and that encoding is a valid base64 text; \<open>GetAudioBytes\<close> returns an
  error exactly when \<open>AudioData\<close> is empty or, with its carriage returns and line
  feeds removed, is not a valid base64 text.
\<close>

theorem C9_audio_bytes_round_trip:
  "(b \<noteq> [] \<longrightarrow> GetAudioBytes (r\<lparr>AudioData := EncodeToString b\<rparr>) = (b, None)) \<and>
   valid_std_base64 (EncodeToString b) \<and>
   (snd (GetAudioBytes r') \<noteq> None \<longleftrightarrow>
      AudioData r' = [] \<or> \<not> valid_std_base64 (strip_newlines (AudioData r')))"
  by (simp add: GetAudioBytes_def DecodeString_ok [symmetric] DecodeString_def
      EncodeToString_nonempty decode_EncodeToString
      valid_EncodeToString [unfolded DecodeString_ok [symmetric]])

theorem C9_audio_bytes_round_trip_witness:
  "[0x4D, 0x61, 0x6E, 0x21] \<noteq> ([]::byte list) \<and>
   EncodeToString [0x4D, 0x61, 0x6E, 0x21] = ''TWFuIQ=='' \<and>
   GetAudioBytes ((new_AudioOverviewResult ''p'')\<lparr>AudioData := ''TWFuIQ==''\<rparr>) =
     ([0x4D, 0x61, 0x6E, 0x21], None) \<and>
   valid_std_base64 ''TWFuIQ=='' \<and>
   AudioData ((new_AudioOverviewResult ''p'')\<lparr>AudioData := ''TWFuIQ=''\<rparr>) \<noteq> [] \<and>
   \<not> valid_std_base64 (strip_newlines ''TWFuIQ='') \<and>
   snd (GetAudioBytes ((new_AudioOverviewResult ''p'')\<lparr>AudioData := ''TWFuIQ=''\<rparr>)) \<noteq> None"
proof -
  have e: "EncodeToString [0x4D, 0x61, 0x6E, 0x21] = ''TWFuIQ==''"
    by (simp add: enc_char_def encodeStd_def padChar_def)
  have v: "\<not> valid_std_base64 (strip_newlines ''TWFuIQ='')"
    by (simp add: valid_std_base64_def strip_newlines_def is_newline_def)
  show ?thesis
    using e v C9_audio_bytes_round_trip
      [of "[0x4D, 0x61, 0x6E, 0x21]" "new_AudioOverviewResult ''p''"
          "(new_AudioOverviewResult ''p'')\<lparr>AudioData := ''TWFuIQ=''\<rparr>"]
    by simp
qed

text \<open>The claim as written fails twice: the empty byte sequence encodes to the empty
  string, for which \<open>GetAudioBytes\<close> returns an error; and a text broken into lines
  is not valid base64, yet \<open>GetAudioBytes\<close> decodes it without error.\<close>

theorem C9_audio_bytes_counterexample:
  "GetAudioBytes ((new_AudioOverviewResult ''p'')\<lparr>AudioData := EncodeToString []\<rparr>) =
     ([], Some (Err ''no audio data available'')) \<and>
   \<not> valid_std_base64 (''TWFu'' @ [CHR 0x0D, CHR 0x0A] @ ''IQ=='' @ [CHR 0x0D, CHR 0x0A]) \<and>
   GetAudioBytes ((new_AudioOverviewResult ''p'')
      \<lparr>AudioData := ''TWFu'' @ [CHR 0x0D, CHR 0x0A] @ ''IQ=='' @ [CHR 0x0D, CHR 0x0A]\<rparr>) =
     ([0x4D, 0x61, 0x6E, 0x21], None)"
  by (simp add: GetAudioBytes_def DecodeString_def decodeMap_def encodeStd_def padChar_def
      is_newline_def decode_padding_def quantum_bytes_def valid_std_base64_def)

text \<open>
  C10. \<open>CreateAudioOverview\<close> validates its arguments before any network call: with
  an empty project ID or empty instructions it returns an error and the client,
  with its list of issued calls, is what it was.
\<close>

theorem C10_CreateAudioOverview_validates_locally:
  assumes "projectID = [] \<or> instructions = []"
  shows "\<exists>e. CreateAudioOverview L projectID instructions c = (Inl e, c)"
  using assms by (auto simp: CreateAudioOverview_def)

theorem C10_CreateAudioOverview_validates_locally_witness:
  "(([]::string) = [] \<or> ''calm tone'' = ([]::string)) \<and>
   (\<exists>e. CreateAudioOverview lib_reject [] ''calm tone'' offline = (Inl e, offline))"
  using C10_CreateAudioOverview_validates_locally [of "[]" "''calm tone''" lib_reject offline]
  by simp

end
